theory Spec2Isabelle
  imports Complex_Main "HOL-Library.Sublist" "HOL-Library.Multiset" "HOL-Library.AList"
begin

section \<open>JavaScript values\<close>

text \<open>
  The preview component (\<^verbatim>\<open>src/components/FormPreview.tsx\<close>) keeps the answers in a
  \<^verbatim>\<open>Record<string, any>\<close>. The values that reach it are strings, numbers and arrays;
  \<^verbatim>\<open>undefined\<close>, \<^verbatim>\<open>null\<close> and booleans are included because the code tests for them.
  The answers and the errors are plain objects, so reading a key they do not own gives
  the member of that name of \<^verbatim>\<open>Object.prototype\<close> when there is one: \<open>JInherited k\<close> is
  that member, a built-in function, or for \<^verbatim>\<open>__proto__\<close> the prototype object itself.
  A number is \<open>NaN\<close>, an infinity or a finite rational; the rounding of IEEE doubles and the
  sign of zero are not represented. Strings are lists of ASCII characters.
\<close>

datatype jsnum = NaN | NegInf | Fin rat | PosInf

datatype jsval =
    JUndefined
  | JNull
  | JBool bool
  | JNum jsnum
  | JStr string
  | JArr "jsval list"
  | JInherited string

text \<open>
  Four built-ins of the language are parameters of the model, because their exact
  results depend on the double-precision format or on the engine:
  \<^verbatim>\<open>Number.prototype.toString\<close>, the conversion of a string to a number, the
  \<^verbatim>\<open>RegExp\<close> constructor, which either throws a \<^verbatim>\<open>SyntaxError\<close> (\<open>None\<close>) or yields a
  matcher whose \<^verbatim>\<open>test\<close> method is the returned predicate, and the text that
  \<^verbatim>\<open>String\<close> gives for the built-in function that is the member of
  \<^verbatim>\<open>Object.prototype\<close> of a given name.
\<close>

record js_env =
  numToString :: "jsnum \<Rightarrow> string"
  stringToNumber :: "string \<Rightarrow> jsnum"
  newRegExp :: "string \<Rightarrow> (string \<Rightarrow> bool) option"
  functionToString :: "string \<Rightarrow> string"

text \<open>Comparison of numbers: every comparison with \<open>NaN\<close> is false.\<close>

fun js_lt :: "jsnum \<Rightarrow> jsnum \<Rightarrow> bool" where
  "js_lt NaN _ = False"
| "js_lt _ NaN = False"
| "js_lt (Fin a) (Fin b) = (a < b)"
| "js_lt NegInf NegInf = False"
| "js_lt NegInf _ = True"
| "js_lt _ NegInf = False"
| "js_lt PosInf _ = False"
| "js_lt _ PosInf = True"

definition js_gt :: "jsnum \<Rightarrow> jsnum \<Rightarrow> bool" where
  "js_gt a b = js_lt b a"

text \<open>Truthiness: \<^verbatim>\<open>undefined\<close>, \<^verbatim>\<open>null\<close>, \<^verbatim>\<open>false\<close>, \<^verbatim>\<open>0\<close>, \<^verbatim>\<open>NaN\<close> and \<^verbatim>\<open>''\<close> are falsy.\<close>

fun truthy :: "jsval \<Rightarrow> bool" where
  "truthy JUndefined = False"
| "truthy JNull = False"
| "truthy (JBool b) = b"
| "truthy (JNum n) = (n \<noteq> NaN \<and> n \<noteq> Fin 0)"
| "truthy (JStr s) = (s \<noteq> [])"
| "truthy (JArr _) = True"
| "truthy (JInherited _) = True"

text \<open>\<^verbatim>\<open>a || b\<close> and \<^verbatim>\<open>a ?? b\<close>.\<close>

definition js_or :: "jsval \<Rightarrow> jsval \<Rightarrow> jsval" where
  "js_or a b = (if truthy a then a else b)"

definition js_nullish :: "jsval \<Rightarrow> jsval \<Rightarrow> jsval" where
  "js_nullish a b = (if a = JUndefined \<or> a = JNull then b else a)"

text \<open>\<^verbatim>\<open>Array.prototype.join(',')\<close> on the string forms of the elements.\<close>

fun join_comma :: "string list \<Rightarrow> string" where
  "join_comma [] = []"
| "join_comma [s] = s"
| "join_comma (s # t # ts) = s @ '','' @ join_comma (t # ts)"

text \<open>
  \<^verbatim>\<open>String(v)\<close>. An array is joined with commas, where \<^verbatim>\<open>undefined\<close> and \<^verbatim>\<open>null\<close>
  elements give the empty string. The prototype object prints as \<^verbatim>\<open>[object Object]\<close>.
\<close>

fun js_String :: "js_env \<Rightarrow> jsval \<Rightarrow> string" where
  "js_String E JUndefined = ''undefined''"
| "js_String E JNull = ''null''"
| "js_String E (JBool b) = (if b then ''true'' else ''false'')"
| "js_String E (JNum n) = numToString E n"
| "js_String E (JStr s) = s"
| "js_String E (JArr vs) =
     join_comma (map (\<lambda>v. if v = JUndefined \<or> v = JNull then [] else js_String E v) vs)"
| "js_String E (JInherited k) =
     (if k = ''__proto__'' then ''[object Object]'' else functionToString E k)"

text \<open>\<^verbatim>\<open>Number(v)\<close>. An object is converted through its string form.\<close>

fun js_Number :: "js_env \<Rightarrow> jsval \<Rightarrow> jsnum" where
  "js_Number E JUndefined = NaN"
| "js_Number E JNull = Fin 0"
| "js_Number E (JBool b) = (if b then Fin 1 else Fin 0)"
| "js_Number E (JNum n) = n"
| "js_Number E (JStr s) = stringToNumber E s"
| "js_Number E (JArr vs) = stringToNumber E (js_String E (JArr vs))"
| "js_Number E (JInherited k) = stringToNumber E (js_String E (JInherited k))"

text \<open>
  The answer object is an association list of its own properties, in insertion order;
  \<^verbatim>\<open>{...prev, [key]: value}\<close> defines an own property and is \<^const>\<open>AList.update\<close>.
  Reading a key looks at the own properties first and then at \<^verbatim>\<open>Object.prototype\<close>,
  whose members are the twelve below; any other missing key gives \<^verbatim>\<open>undefined\<close>.
\<close>

type_synonym form_data = "(string \<times> jsval) list"

definition objectPrototypeKeys :: "string list" where
  "objectPrototypeKeys =
    [''constructor'', ''hasOwnProperty'', ''isPrototypeOf'', ''propertyIsEnumerable'',
     ''toLocaleString'', ''toString'', ''valueOf'', ''__proto__'', ''__defineGetter__'',
     ''__defineSetter__'', ''__lookupGetter__'', ''__lookupSetter__'']"

definition js_get :: "form_data \<Rightarrow> string \<Rightarrow> jsval" where
  "js_get fd k =
    (case map_of fd k of
       Some v \<Rightarrow> v
     | None \<Rightarrow> (if k \<in> set objectPrototypeKeys then JInherited k else JUndefined))"

section \<open>Conditions\<close>

text \<open>
  \<^verbatim>\<open>ConditionOperator\<close>, with one more constructor for any other string, which the
  \<^verbatim>\<open>switch\<close> of \<^verbatim>\<open>evaluateRule\<close> sends to its \<^verbatim>\<open>default\<close> branch.
\<close>

datatype ConditionOperator =
    Equals | Not_equals | Contains | Not_contains | Greater_than | Less_than
  | Is_empty | Is_not_empty | Starts_with | Ends_with | Other_operator string

record ConditionRule =
  questionId :: string
  operator :: ConditionOperator
  rule_value :: string

datatype ConditionLogic = AND | OR

record Condition =
  logic :: ConditionLogic
  rules :: "ConditionRule list"

text \<open>The \<^verbatim>\<open>switch\<close> of \<^verbatim>\<open>evaluateRule\<close>, on the value already resolved.\<close>

definition evaluateRuleOn :: "js_env \<Rightarrow> jsval \<Rightarrow> ConditionRule \<Rightarrow> bool" where
  "evaluateRuleOn E val rule =
    (let compareValue = rule_value rule in
     case operator rule of
       Equals \<Rightarrow>
         (case val of JArr vs \<Rightarrow> JStr compareValue \<in> set vs
          | _ \<Rightarrow> val = JStr compareValue)
     | Not_equals \<Rightarrow>
         (case val of JArr vs \<Rightarrow> JStr compareValue \<notin> set vs
          | _ \<Rightarrow> val \<noteq> JStr compareValue)
     | Contains \<Rightarrow>
         (case val of JArr vs \<Rightarrow> list_ex (\<lambda>v. sublist compareValue (js_String E v)) vs
          | _ \<Rightarrow> sublist compareValue (js_String E val))
     | Not_contains \<Rightarrow>
         (case val of JArr vs \<Rightarrow> \<not> list_ex (\<lambda>v. sublist compareValue (js_String E v)) vs
          | _ \<Rightarrow> \<not> sublist compareValue (js_String E val))
     | Is_empty \<Rightarrow>
         (case val of JArr vs \<Rightarrow> length vs = 0
          | _ \<Rightarrow> \<not> truthy val \<or> val = JStr [])
     | Is_not_empty \<Rightarrow>
         (case val of JArr vs \<Rightarrow> length vs > 0
          | _ \<Rightarrow> truthy val \<and> val \<noteq> JStr [])
     | Greater_than \<Rightarrow> js_gt (js_Number E val) (js_Number E (JStr compareValue))
     | Less_than \<Rightarrow> js_lt (js_Number E val) (js_Number E (JStr compareValue))
     | Starts_with \<Rightarrow>
         (case val of JArr vs \<Rightarrow> list_ex (\<lambda>v. prefix compareValue (js_String E v)) vs
          | _ \<Rightarrow> prefix compareValue (js_String E val))
     | Ends_with \<Rightarrow>
         (case val of JArr vs \<Rightarrow> list_ex (\<lambda>v. suffix compareValue (js_String E v)) vs
          | _ \<Rightarrow> suffix compareValue (js_String E val))
     | Other_operator _ \<Rightarrow> True)"

text \<open>\<^verbatim>\<open>const value = formData[rule.questionId] || ''\<close>, then the switch.\<close>

definition evaluateRule :: "js_env \<Rightarrow> form_data \<Rightarrow> ConditionRule \<Rightarrow> bool" where
  "evaluateRule E fd rule =
     evaluateRuleOn E (js_or (js_get fd (questionId rule)) (JStr [])) rule"

text \<open>
  The evaluator as section 4.1 of the specification words it, for comparison:
  \<^verbatim>\<open>value = answers[rule.questionId] ?? ''\<close>.
\<close>

definition evaluateRule_nullish :: "js_env \<Rightarrow> form_data \<Rightarrow> ConditionRule \<Rightarrow> bool" where
  "evaluateRule_nullish E fd rule =
     evaluateRuleOn E (js_nullish (js_get fd (questionId rule)) (JStr [])) rule"

definition evaluateCondition :: "js_env \<Rightarrow> form_data \<Rightarrow> Condition \<Rightarrow> bool" where
  "evaluateCondition E fd cond =
    (let results = map (evaluateRule E fd) (rules cond) in
     if logic cond = AND then list_all (\<lambda>r. r) results else list_ex (\<lambda>r. r) results)"

section \<open>Arithmetic on numbers\<close>

text \<open>
  The arithmetic of the progress calculation. A division by zero gives an infinity or
  \<open>NaN\<close> as in the language, with zero taken as positive.
\<close>

fun js_sign :: "jsnum \<Rightarrow> int" where
  "js_sign NaN = 0"
| "js_sign NegInf = -1"
| "js_sign PosInf = 1"
| "js_sign (Fin x) = (if x < 0 then -1 else if x = 0 then 0 else 1)"

definition js_inf :: "int \<Rightarrow> jsnum" where
  "js_inf s = (if s = 0 then NaN else if 0 < s then PosInf else NegInf)"

fun js_add :: "jsnum \<Rightarrow> jsnum \<Rightarrow> jsnum" where
  "js_add NaN _ = NaN"
| "js_add _ NaN = NaN"
| "js_add (Fin a) (Fin b) = Fin (a + b)"
| "js_add PosInf NegInf = NaN"
| "js_add NegInf PosInf = NaN"
| "js_add PosInf _ = PosInf"
| "js_add _ PosInf = PosInf"
| "js_add NegInf _ = NegInf"
| "js_add _ NegInf = NegInf"

fun js_neg :: "jsnum \<Rightarrow> jsnum" where
  "js_neg NaN = NaN"
| "js_neg NegInf = PosInf"
| "js_neg PosInf = NegInf"
| "js_neg (Fin a) = Fin (- a)"

definition js_sub :: "jsnum \<Rightarrow> jsnum \<Rightarrow> jsnum" where
  "js_sub a b = js_add a (js_neg b)"

fun js_mul :: "jsnum \<Rightarrow> jsnum \<Rightarrow> jsnum" where
  "js_mul NaN _ = NaN"
| "js_mul _ NaN = NaN"
| "js_mul (Fin a) (Fin b) = Fin (a * b)"
| "js_mul a b = js_inf (js_sign a * js_sign b)"

fun js_div :: "jsnum \<Rightarrow> jsnum \<Rightarrow> jsnum" where
  "js_div NaN _ = NaN"
| "js_div _ NaN = NaN"
| "js_div (Fin a) (Fin b) = (if b = 0 then js_inf (js_sign (Fin a)) else Fin (a / b))"
| "js_div (Fin a) _ = Fin 0"
| "js_div a (Fin b) = js_inf (js_sign a * (if b < 0 then -1 else 1))"
| "js_div _ _ = NaN"

text \<open>\<^verbatim>\<open>Math.pow\<close> with an integer exponent.\<close>

definition js_pow :: "jsnum \<Rightarrow> int \<Rightarrow> jsnum" where
  "js_pow b e =
    (if e = 0 then Fin 1
     else case b of
       NaN \<Rightarrow> NaN
     | Fin x \<Rightarrow>
         (if 0 < e then Fin (x ^ nat e)
          else if x = 0 then PosInf else Fin (1 / x ^ nat (- e)))
     | PosInf \<Rightarrow> (if 0 < e then PosInf else Fin 0)
     | NegInf \<Rightarrow> (if 0 < e then (if odd e then NegInf else PosInf) else Fin 0))"

section \<open>The form document\<close>

text \<open>
  The types of \<^verbatim>\<open>src/types\<close>, with the fields the preview's logic reads. Presentation
  fields (labels, grid positions, theme) are left out. \<^verbatim>\<open>priority\<close> is an integer, as the
  editor writes it (\<^verbatim>\<open>parseInt(...) || 0\<close>).
\<close>

datatype QuestionType =
    Q_text | Q_textarea | Q_email | Q_phone | Q_number | Q_currency | Q_radio
  | Q_checkbox | Q_select | Q_multiselect | Q_date | Q_time | Q_datetime | Q_file
  | Q_rating | Q_slider | Q_hidden | Q_eircode | Q_numberplate | Q_privacy_policy
  | Q_helper_text

record QuestionValidation =
  required :: bool
  minLength :: "jsnum option"
  maxLength :: "jsnum option"
  v_min :: "jsnum option"
  v_max :: "jsnum option"
  pattern :: "string option"
  patternMessage :: "string option"

record Question =
  question_id :: string
  question_type :: QuestionType
  fieldName :: "string option"
  validation :: QuestionValidation
  conditionalDisplay :: "Condition option"
  useDateInputMask :: bool

datatype TargetType = Next | Previous | Specific | Submit | Url

record NavigationTarget =
  target_type :: TargetType
  stepId :: "string option"

record ConditionalNavigation =
  condition :: Condition
  target :: NavigationTarget
  priority :: int

record Step =
  step_id :: string
  questions :: "Question list"
  conditionalNavigation :: "ConditionalNavigation list"
  defaultNextStep :: "string option"
  defaultPrevStep :: "string option"
  validateOnContinue :: bool
  autoAdvance :: bool
  enterKeyAdvance :: bool

datatype ProgressMode =
    Linear | Step_based | Weighted | Exponential | Question_based | Other_mode

record ProgressConfig =
  mode :: ProgressMode
  stepWeights :: "(string \<times> jsnum) list option"
  exponentialBase :: "jsnum option"

record Form =
  steps :: "Step list"
  progressConfig :: ProgressConfig

text \<open>An optional string is truthy when it is present and not empty.\<close>

fun str_truthy :: "string option \<Rightarrow> bool" where
  "str_truthy None = False"
| "str_truthy (Some s) = (s \<noteq> [])"

text \<open>\<^verbatim>\<open>xs[i]\<close> for a number \<open>i\<close>: \<^verbatim>\<open>undefined\<close> outside the array.\<close>

definition js_index :: "'a list \<Rightarrow> int \<Rightarrow> 'a option" where
  "js_index xs i = (if 0 \<le> i \<and> i < int (length xs) then Some (xs ! nat i) else None)"

text \<open>\<^verbatim>\<open>Array.prototype.findIndex\<close>: the first index whose element satisfies \<open>P\<close>, or \<open>-1\<close>.\<close>

fun findIndex :: "('a \<Rightarrow> bool) \<Rightarrow> 'a list \<Rightarrow> int" where
  "findIndex P [] = -1"
| "findIndex P (x # xs) =
     (if P x then 0 else (let r = findIndex P xs in if r = -1 then -1 else r + 1))"

text \<open>\<^verbatim>\<open>const currentStep = form.steps[currentStepIndex] || form.steps[0]\<close>.\<close>

definition currentStep :: "Form \<Rightarrow> int \<Rightarrow> Step option" where
  "currentStep form i =
    (case js_index (steps form) i of Some s \<Rightarrow> Some s | None \<Rightarrow> js_index (steps form) 0)"

section \<open>Progress\<close>

text \<open>
  \<^verbatim>\<open>weights[s.id] || 1\<close>. For a step id that the weights do not own and that names a
  member of \<^verbatim>\<open>Object.prototype\<close>, the sum becomes a string that is not a numeral, and
  the quotient computed from it is \<open>NaN\<close>; the weight is \<open>NaN\<close> to the same effect.
\<close>

definition weightOf :: "(string \<times> jsnum) list \<Rightarrow> Step \<Rightarrow> jsnum" where
  "weightOf weights s =
    (case map_of weights (step_id s) of
       None \<Rightarrow> (if step_id s \<in> set objectPrototypeKeys then NaN else Fin 1)
     | Some w \<Rightarrow> (if truthy (JNum w) then w else Fin 1))"

text \<open>\<^verbatim>\<open>Array.prototype.slice(0, n)\<close>.\<close>

definition slice0 :: "'a list \<Rightarrow> int \<Rightarrow> 'a list" where
  "slice0 xs n =
    (if 0 \<le> n then take (nat n) xs else take (nat (int (length xs) + n)) xs)"

text \<open>The body of the \<^verbatim>\<open>progress\<close> memo.\<close>

definition progress :: "Form \<Rightarrow> form_data \<Rightarrow> int \<Rightarrow> jsnum" where
  "progress form fd i =
    (case currentStep form i of
       None \<Rightarrow> Fin 0
     | Some _ \<Rightarrow>
        (let totalSteps = length (steps form) in
         if totalSteps = 0 then Fin 0
         else case mode (progressConfig form) of
           Linear \<Rightarrow>
             js_mul (js_div (Fin (of_int (i + 1))) (Fin (of_nat totalSteps))) (Fin 100)
         | Step_based \<Rightarrow>
             js_mul (js_div (Fin (of_int (i + 1))) (Fin (of_nat totalSteps))) (Fin 100)
         | Weighted \<Rightarrow>
             (let weights = (case stepWeights (progressConfig form) of
                               None \<Rightarrow> [] | Some w \<Rightarrow> w);
                  totalWeight = foldl (\<lambda>sum s. js_add sum (weightOf weights s))
                                  (Fin 0) (steps form);
                  completedWeight = foldl (\<lambda>sum s. js_add sum (weightOf weights s))
                                  (Fin 0) (slice0 (steps form) (i + 1))
              in js_mul (js_div completedWeight totalWeight) (Fin 100))
         | Exponential \<Rightarrow>
             (let base = (case exponentialBase (progressConfig form) of
                            None \<Rightarrow> Fin 2
                          | Some b \<Rightarrow> (if truthy (JNum b) then b else Fin 2))
              in js_mul
                   (js_div (js_sub (js_pow base (i + 1)) (Fin 1))
                           (js_sub (js_pow base (int totalSteps)) (Fin 1)))
                   (Fin 100))
         | Question_based \<Rightarrow>
             (let totalQuestions = length (concat (map questions (steps form)));
                  answeredQuestions =
                    length (filter (\<lambda>key. truthy (js_get fd key)) (remdups (map fst fd)))
              in if totalQuestions > 0
                 then js_mul (js_div (Fin (of_nat answeredQuestions))
                                     (Fin (of_nat totalQuestions))) (Fin 100)
                 else Fin 0)
         | Other_mode \<Rightarrow> Fin 0))"

section \<open>Navigation\<close>

text \<open>
  \<^verbatim>\<open>[...currentStep.conditionalNavigation].sort((a, b) => b.priority - a.priority)\<close>:
  the sort of the language is stable, so it is the stable sort on the negated priority.
\<close>

definition sortedNavigation :: "Step \<Rightarrow> ConditionalNavigation list" where
  "sortedNavigation step = sort_key (\<lambda>nav. - priority nav) (conditionalNavigation step)"

text \<open>
  The \<^verbatim>\<open>for\<close> loop of \<^verbatim>\<open>getNextStepIndex\<close> over the sorted rules; \<open>None\<close> when the loop
  ends without a \<^verbatim>\<open>return\<close>.
\<close>

fun navLoop ::
  "js_env \<Rightarrow> form_data \<Rightarrow> Step list \<Rightarrow> int \<Rightarrow> ConditionalNavigation list \<Rightarrow> int option" where
  "navLoop E fd allSteps i [] = None"
| "navLoop E fd allSteps i (nav # rest) =
    (if evaluateCondition E fd (condition nav) then
       (if target_type (target nav) = Submit then Some (-1)
        else if target_type (target nav) = Specific \<and> str_truthy (stepId (target nav))
                \<and> findIndex (\<lambda>s. Some (step_id s) = stepId (target nav)) allSteps \<noteq> -1
          then Some (findIndex (\<lambda>s. Some (step_id s) = stepId (target nav)) allSteps)
        else if target_type (target nav) = Next then Some (i + 1)
        else navLoop E fd allSteps i rest)
     else navLoop E fd allSteps i rest)"

definition getNextStepIndex :: "js_env \<Rightarrow> Form \<Rightarrow> form_data \<Rightarrow> int \<Rightarrow> Step \<Rightarrow> int" where
  "getNextStepIndex E form fd i step =
    (case navLoop E fd (steps form) i (sortedNavigation step) of
       Some r \<Rightarrow> r
     | None \<Rightarrow>
        (if str_truthy (defaultNextStep step)
            \<and> findIndex (\<lambda>s. Some (step_id s) = defaultNextStep step) (steps form) \<noteq> -1
         then findIndex (\<lambda>s. Some (step_id s) = defaultNextStep step) (steps form)
         else i + 1))"

text \<open>\<^verbatim>\<open>nextIndex === -1 || nextIndex >= form.steps.length\<close>: the form is submitted.\<close>

definition isSubmitIndex :: "Form \<Rightarrow> int \<Rightarrow> bool" where
  "isSubmitIndex form nextIndex = (nextIndex = -1 \<or> nextIndex \<ge> int (length (steps form)))"

section \<open>Strings and regular expressions\<close>

definition is_space :: "char \<Rightarrow> bool" where
  "is_space c = (c \<in> set [CHR 0x09, CHR 0x0A, CHR 0x0B, CHR 0x0C, CHR 0x0D, CHR 0x20])"

definition is_digit :: "char \<Rightarrow> bool" where
  "is_digit c = (c \<in> set ''0123456789'')"

definition is_upper :: "char \<Rightarrow> bool" where
  "is_upper c = (c \<in> set ''ABCDEFGHIJKLMNOPQRSTUVWXYZ'')"

text \<open>\<^verbatim>\<open>String.prototype.toUpperCase\<close> on ASCII.\<close>

definition upper_char :: "char \<Rightarrow> char" where
  "upper_char c =
    (case map_of (zip ''abcdefghijklmnopqrstuvwxyz'' ''ABCDEFGHIJKLMNOPQRSTUVWXYZ'') c of
       None \<Rightarrow> c | Some u \<Rightarrow> u)"

definition toUpperCase :: "string \<Rightarrow> string" where
  "toUpperCase s = map upper_char s"

text \<open>\<^verbatim>\<open>s.replace(/\s/g, '')\<close>.\<close>

definition stripWhitespace :: "string \<Rightarrow> string" where
  "stripWhitespace s = filter (\<lambda>c. \<not> is_space c) s"

text \<open>\<^verbatim>\<open>String.prototype.substring(a, b)\<close> and \<^verbatim>\<open>substring(a)\<close> for \<open>a \<le> b\<close>.\<close>

definition substring :: "string \<Rightarrow> nat \<Rightarrow> nat \<Rightarrow> string" where
  "substring s a b = take (b - a) (drop a s)"

definition substringFrom :: "string \<Rightarrow> nat \<Rightarrow> string" where
  "substringFrom s a = drop a s"

text \<open>\<^verbatim>\<open>String.prototype.split\<close> on a one-character separator; the result is never empty.\<close>

fun split_on :: "char \<Rightarrow> string \<Rightarrow> string list" where
  "split_on sep [] = [[]]"
| "split_on sep (c # cs) =
    (if c = sep then [] # split_on sep cs
     else (case split_on sep cs of
             [] \<Rightarrow> [[c]]
           | p # ps \<Rightarrow> (c # p) # ps))"

text \<open>
  \<^verbatim>\<open>parseInt(s, 10)\<close>: leading white space, an optional sign and the longest run of
  decimal digits; \<open>None\<close> is \<open>NaN\<close>. The argument \<^verbatim>\<open>undefined\<close> is the string
  \<^verbatim>\<open>"undefined"\<close> and gives \<open>NaN\<close>.
\<close>

definition digit_val :: "char \<Rightarrow> nat" where
  "digit_val c = (case map_of (zip ''0123456789'' [0 ..< 10]) c of None \<Rightarrow> 0 | Some d \<Rightarrow> d)"

definition digits_val :: "string \<Rightarrow> nat" where
  "digits_val ds = foldl (\<lambda>n c. 10 * n + digit_val c) 0 ds"

definition parseInt10 :: "string \<Rightarrow> int option" where
  "parseInt10 s =
    (let t = dropWhile is_space s;
         neg = (case t of [] \<Rightarrow> False | c # _ \<Rightarrow> c = CHR ''-'');
         u = (case t of [] \<Rightarrow> []
              | c # cs \<Rightarrow> if c = CHR ''-'' \<or> c = CHR ''+'' then cs else t);
         ds = takeWhile is_digit u
     in if ds = [] then None
        else Some (if neg then - int (digits_val ds) else int (digits_val ds)))"

definition parseInt10_opt :: "string option \<Rightarrow> int option" where
  "parseInt10_opt x = (case x of None \<Rightarrow> None | Some s \<Rightarrow> parseInt10 s)"

text \<open>The decimal numeral of a natural number, for the template literals.\<close>

definition digit_char :: "nat \<Rightarrow> char" where
  "digit_char d = ''0123456789'' ! (d mod 10)"

function decimal :: "nat \<Rightarrow> string" where
  "decimal n = (if n < 10 then [digit_char n] else decimal (n div 10) @ [digit_char (n mod 10)])"
  by pat_completeness auto
termination
  by (relation "measure (\<lambda>n. n)") auto

text \<open>
  Regular expressions, matched by derivatives. A character class is a predicate.
  An expression anchored by \<^verbatim>\<open>^\<close> and \<^verbatim>\<open>$\<close> (without flags) has to match the whole string.
\<close>

datatype rx =
    Empty
  | Eps
  | Cls "char \<Rightarrow> bool"
  | Alt rx rx
  | Seq rx rx
  | Star rx

fun nullable :: "rx \<Rightarrow> bool" where
  "nullable Empty = False"
| "nullable Eps = True"
| "nullable (Cls _) = False"
| "nullable (Alt r s) = (nullable r \<or> nullable s)"
| "nullable (Seq r s) = (nullable r \<and> nullable s)"
| "nullable (Star _) = True"

fun deriv :: "char \<Rightarrow> rx \<Rightarrow> rx" where
  "deriv c Empty = Empty"
| "deriv c Eps = Empty"
| "deriv c (Cls P) = (if P c then Eps else Empty)"
| "deriv c (Alt r s) = Alt (deriv c r) (deriv c s)"
| "deriv c (Seq r s) =
    (if nullable r then Alt (Seq (deriv c r) s) (deriv c s) else Seq (deriv c r) s)"
| "deriv c (Star r) = Seq (deriv c r) (Star r)"

definition rx_test :: "rx \<Rightarrow> string \<Rightarrow> bool" where
  "rx_test r s = nullable (foldl (\<lambda>r c. deriv c r) r s)"

text \<open>\<^verbatim>\<open>r+\<close>, \<^verbatim>\<open>r{n}\<close>, \<^verbatim>\<open>r{n,}\<close> and \<^verbatim>\<open>r{m,n}\<close>.\<close>

definition rx_plus :: "rx \<Rightarrow> rx" where
  "rx_plus r = Seq r (Star r)"

fun rx_times :: "nat \<Rightarrow> rx \<Rightarrow> rx" where
  "rx_times 0 r = Eps"
| "rx_times (Suc n) r = Seq r (rx_times n r)"

definition rx_atleast :: "nat \<Rightarrow> rx \<Rightarrow> rx" where
  "rx_atleast n r = Seq (rx_times n r) (Star r)"

fun rx_upto :: "nat \<Rightarrow> rx \<Rightarrow> rx" where
  "rx_upto 0 r = Eps"
| "rx_upto (Suc n) r = Alt Eps (Seq r (rx_upto n r))"

definition rx_between :: "nat \<Rightarrow> nat \<Rightarrow> rx \<Rightarrow> rx" where
  "rx_between m n r = Seq (rx_times m r) (rx_upto (n - m) r)"

definition rx_chr :: "char \<Rightarrow> rx" where
  "rx_chr c = Cls (\<lambda>x. x = c)"

text \<open>\<^verbatim>\<open>/^[^\s@]+@[^\s@]+\.[^\s@]+$/\<close>\<close>

definition emailRegex :: rx where
  "emailRegex =
    (let part = rx_plus (Cls (\<lambda>c. \<not> is_space c \<and> c \<noteq> CHR ''@''))
     in Seq part (Seq (rx_chr CHR ''@'') (Seq part (Seq (rx_chr CHR ''.'') part))))"

text \<open>\<^verbatim>\<open>/^[\d\s\-+()]{7,}$/\<close>\<close>

definition phoneRegex :: rx where
  "phoneRegex = rx_atleast 7 (Cls (\<lambda>c. is_digit c \<or> is_space c \<or> c \<in> set ''-+()''))"

text \<open>\<^verbatim>\<open>/^\d{2,3}-[A-Z]{1,2}-\d{1,6}$/\<close>\<close>

definition numberPlateRegex :: rx where
  "numberPlateRegex =
    Seq (rx_between 2 3 (Cls is_digit))
      (Seq (rx_chr CHR ''-'')
        (Seq (rx_between 1 2 (Cls is_upper))
          (Seq (rx_chr CHR ''-'') (rx_between 1 6 (Cls is_digit)))))"

definition validEircodePrefixes :: "string list" where
  "validEircodePrefixes =
    [''A41'',''A42'',''A45'',''A63'',''A67'',''A75'',''A81'',''A82'',''A83'',''A84'',''A85'',
     ''A86'',''A91'',''A92'',''A94'',''A96'',''A98'',''C15'',''D01'',''D02'',''D03'',''D04'',
     ''D05'',''D06'',''D6W'',''D07'',''D08'',''D09'',''D10'',''D11'',''D12'',''D13'',''D14'',
     ''D15'',''D16'',''D17'',''D18'',''D20'',''D22'',''D24'',''E21'',''E25'',''E32'',''E34'',
     ''E41'',''E45'',''E53'',''E91'',''F12'',''F23'',''F26'',''F28'',''F31'',''F35'',''F42'',
     ''F45'',''F52'',''F56'',''F91'',''F92'',''F93'',''F94'',''H12'',''H14'',''H16'',''H18'',
     ''H23'',''H53'',''H54'',''H62'',''H65'',''H71'',''H91'',''K32'',''K34'',''K36'',''K45'',
     ''K56'',''K67'',''K78'',''N37'',''N39'',''N41'',''N91'',''P12'',''P14'',''P17'',''P24'',
     ''P25'',''P31'',''P32'',''P36'',''P43'',''P47'',''P51'',''P56'',''P61'',''P67'',''P72'',
     ''P75'',''P81'',''P85'',''R14'',''R21'',''R32'',''R35'',''R42'',''R45'',''R51'',''R56'',
     ''R93'',''R95'',''T12'',''T23'',''T34'',''T45'',''T56'',''V14'',''V15'',''V23'',''V31'',
     ''V35'',''V42'',''V92'',''V93'',''V94'',''V95'',''W12'',''W23'',''W34'',''W91'',''X35'',
     ''X42'',''X91'',''Y14'',''Y21'',''Y25'',''Y34'',''Y35'']"

section \<open>Validation\<close>

text \<open>
  \<^verbatim>\<open>new Date(year, month, 0).getDate()\<close>: the number of days of month \<open>month\<close>
  (counted from 1) in the Gregorian calendar. It is only called with
  \<open>1 \<le> month \<le> 12\<close> and \<open>1900 \<le> year \<le> 2100\<close>.
\<close>

definition isLeapYear :: "int \<Rightarrow> bool" where
  "isLeapYear y = (y mod 4 = 0 \<and> (y mod 100 \<noteq> 0 \<or> y mod 400 = 0))"

definition daysInMonth :: "int \<Rightarrow> int \<Rightarrow> int" where
  "daysInMonth year month =
    (if month = 2 then (if isLeapYear year then 29 else 28)
     else if month \<in> set [4, 6, 9, 11] then 30 else 31)"

text \<open>
  The range test on day, month and year, where \<open>None\<close> is \<open>NaN\<close>; and the one on hours
  and minutes.
\<close>

definition dateOutOfRange :: "int option \<Rightarrow> int option \<Rightarrow> int option \<Rightarrow> bool" where
  "dateOutOfRange day month year =
    (case (day, month, year) of
       (Some d, Some m, Some y) \<Rightarrow>
         d < 1 \<or> d > 31 \<or> m < 1 \<or> m > 12 \<or> y < 1900 \<or> y > 2100
     | _ \<Rightarrow> True)"

definition timeOutOfRange :: "int option \<Rightarrow> int option \<Rightarrow> bool" where
  "timeOutOfRange hours minutes =
    (case (hours, minutes) of
       (Some h, Some mi) \<Rightarrow> h < 0 \<or> h > 23 \<or> mi < 0 \<or> mi > 59
     | _ \<Rightarrow> True)"

definition dayAfterMonthEnd :: "int option \<Rightarrow> int option \<Rightarrow> int option \<Rightarrow> string option" where
  "dayAfterMonthEnd day month year =
    (case (day, month, year) of
       (Some d, Some m, Some y) \<Rightarrow>
         (if d > daysInMonth y m
          then Some (''Invalid day for this month (max '' @ decimal (nat (daysInMonth y m)) @ '')'')
          else None)
     | _ \<Rightarrow> None)"

text \<open>
  The block for \<^verbatim>\<open>date\<close> questions with an input mask: the message it assigns, if any.
\<close>

definition dateMaskError :: "string \<Rightarrow> string option" where
  "dateMaskError dateVal =
    (if length dateVal \<noteq> 10 then Some ''Please enter a complete date (DD/MM/YYYY)''
     else case split_on CHR ''/'' dateVal of
       [p0, p1, p2] \<Rightarrow>
         (if length p0 \<noteq> 2 \<or> length p1 \<noteq> 2 \<or> length p2 \<noteq> 4
          then Some ''Please enter date in DD/MM/YYYY format''
          else (let day = parseInt10 p0; month = parseInt10 p1; year = parseInt10 p2 in
                if dateOutOfRange day month year
                then Some ''Please enter a valid date (DD/MM/YYYY)''
                else dayAfterMonthEnd day month year))
     | _ \<Rightarrow> Some ''Please enter date in DD/MM/YYYY format'')"

text \<open>The block for \<^verbatim>\<open>datetime\<close> questions with an input mask.\<close>

definition datetimeMaskError :: "string \<Rightarrow> string option" where
  "datetimeMaskError dateVal =
    (if length dateVal \<noteq> 16
     then Some ''Please enter a complete date and time (DD/MM/YYYY HH:MM)''
     else (let datePart = substring dateVal 0 10; timePart = substringFrom dateVal 11 in
       case split_on CHR ''/'' datePart of
         [p0, p1, p2] \<Rightarrow>
           (if length p0 \<noteq> 2 \<or> length p1 \<noteq> 2 \<or> length p2 \<noteq> 4
            then Some ''Please enter date in DD/MM/YYYY format''
            else (let day = parseInt10 p0; month = parseInt10 p1; year = parseInt10 p2;
                      timeParts = split_on CHR '':'' timePart;
                      hours = parseInt10_opt (js_index timeParts 0);
                      minutes = parseInt10_opt (js_index timeParts 1) in
                  if dateOutOfRange day month year
                  then Some ''Please enter a valid date (DD/MM/YYYY)''
                  else if timeOutOfRange hours minutes
                  then Some ''Please enter a valid time (00:00 - 23:59)''
                  else dayAfterMonthEnd day month year))
       | _ \<Rightarrow> Some ''Please enter date in DD/MM/YYYY format''))"

text \<open>The eircode test: the condition under which the message is assigned.\<close>

definition eircodeInvalid :: "string \<Rightarrow> bool" where
  "eircodeInvalid s =
    (let eircodeVal = toUpperCase (stripWhitespace s);
         prefix3 = substring eircodeVal 0 3
     in length eircodeVal < 7 \<or> prefix3 \<notin> set validEircodePrefixes)"

text \<open>
  The error object \<^verbatim>\<open>newErrors\<close> is an association list of its own properties. The
  assignment \<^verbatim>\<open>newErrors[key] = msg\<close> sets or adds the own property, except for the key
  \<^verbatim>\<open>__proto__\<close>: that assignment goes to the setter of \<^verbatim>\<open>Object.prototype\<close>, which
  ignores a string, so the object stays as it is. The only exception the validator can
  raise is the \<^verbatim>\<open>SyntaxError\<close> of \<^verbatim>\<open>new RegExp\<close>, which carries the pattern.
\<close>

type_synonym error_map = "(string \<times> string) list"

definition js_assign :: "string \<Rightarrow> string \<Rightarrow> error_map \<Rightarrow> error_map" where
  "js_assign key msg errs = (if key = ''__proto__'' then errs else AList.update key msg errs)"

datatype js_error = SyntaxError string

definition shouldShowQuestion :: "js_env \<Rightarrow> form_data \<Rightarrow> Question \<Rightarrow> bool" where
  "shouldShowQuestion E fd question =
    (case conditionalDisplay question of
       None \<Rightarrow> True
     | Some c \<Rightarrow> evaluateCondition E fd c)"

text \<open>\<^verbatim>\<open>question.fieldName || question.id\<close>\<close>

definition fieldKey :: "Question \<Rightarrow> string" where
  "fieldKey question =
    (case fieldName question of
       None \<Rightarrow> question_id question
     | Some f \<Rightarrow> (if f \<noteq> [] then f else question_id question))"

definition isArray :: "jsval \<Rightarrow> bool" where
  "isArray v = (case v of JArr _ \<Rightarrow> True | _ \<Rightarrow> False)"

definition arrayLength :: "jsval \<Rightarrow> nat" where
  "arrayLength v = (case v of JArr vs \<Rightarrow> length vs | _ \<Rightarrow> 0)"

text \<open>\<^verbatim>\<open>if (cond) newErrors[key] = msg\<close>\<close>

definition assignIf :: "bool \<Rightarrow> string \<Rightarrow> string \<Rightarrow> error_map \<Rightarrow> error_map" where
  "assignIf c key msg errs = (if c then js_assign key msg errs else errs)"

text \<open>\<^verbatim>\<open>limit && n < limit\<close> and \<^verbatim>\<open>limit && n > limit\<close> for an optional number.\<close>

definition belowLimit :: "jsnum option \<Rightarrow> jsnum \<Rightarrow> bool" where
  "belowLimit limit n =
    (case limit of None \<Rightarrow> False | Some l \<Rightarrow> truthy (JNum l) \<and> js_lt n l)"

definition aboveLimit :: "jsnum option \<Rightarrow> jsnum \<Rightarrow> bool" where
  "aboveLimit limit n =
    (case limit of None \<Rightarrow> False | Some l \<Rightarrow> truthy (JNum l) \<and> js_gt n l)"

definition limitText :: "js_env \<Rightarrow> jsnum option \<Rightarrow> string" where
  "limitText E limit = (case limit of None \<Rightarrow> ''undefined'' | Some l \<Rightarrow> numToString E l)"

text \<open>
  The type-specific checks of the callback, in the order of the source, on the string
  form of a truthy value.
\<close>

definition typeChecks :: "Question \<Rightarrow> string \<Rightarrow> string \<Rightarrow> error_map \<Rightarrow> error_map" where
  "typeChecks question key s errs0 =
    (let errs1 = assignIf (question_type question = Q_email \<and> \<not> rx_test emailRegex s)
                   key ''Please enter a valid email address'' errs0;
         errs2 = assignIf (question_type question = Q_phone \<and> \<not> rx_test phoneRegex s)
                   key ''Please enter a valid phone number'' errs1;
         errs3 = assignIf (question_type question = Q_eircode \<and> eircodeInvalid s)
                   key ''Please enter a valid Eircode (e.g. D02 X285)'' errs2;
         errs4 = assignIf (question_type question = Q_numberplate
                           \<and> \<not> rx_test numberPlateRegex (toUpperCase s))
                   key ''Please enter a valid number plate (e.g. 191-D-12345)'' errs3;
         errs5 = (if question_type question = Q_date \<and> useDateInputMask question
                  then (case dateMaskError s of
                          None \<Rightarrow> errs4 | Some msg \<Rightarrow> js_assign key msg errs4)
                  else errs4);
         errs6 = (if question_type question = Q_datetime \<and> useDateInputMask question
                  then (case datetimeMaskError s of
                          None \<Rightarrow> errs5 | Some msg \<Rightarrow> js_assign key msg errs5)
                  else errs5)
     in errs6)"

text \<open>The generic checks that cannot raise: lengths and numeric range.\<close>

definition rangeChecks ::
  "js_env \<Rightarrow> QuestionValidation \<Rightarrow> string \<Rightarrow> jsval \<Rightarrow> error_map \<Rightarrow> error_map" where
  "rangeChecks E v key val errs0 =
    (let s = js_String E val;
         errs1 = assignIf (belowLimit (minLength v) (Fin (of_nat (length s))))
                   key (''Minimum '' @ limitText E (minLength v) @ '' characters required'') errs0;
         errs2 = assignIf (aboveLimit (maxLength v) (Fin (of_nat (length s))))
                   key (''Maximum '' @ limitText E (maxLength v) @ '' characters allowed'') errs1;
         errs3 = assignIf (case v_min v of None \<Rightarrow> False
                           | Some m \<Rightarrow> js_lt (js_Number E val) m)
                   key (''Minimum value is '' @ limitText E (v_min v)) errs2;
         errs4 = assignIf (case v_max v of None \<Rightarrow> False
                           | Some m \<Rightarrow> js_gt (js_Number E val) m)
                   key (''Maximum value is '' @ limitText E (v_max v)) errs3
     in errs4)"

text \<open>
  The last check: \<^verbatim>\<open>new RegExp(validation.pattern)\<close> is not guarded, so a pattern that
  does not compile ends the validator with the exception.
\<close>

definition patternCheck ::
  "js_env \<Rightarrow> QuestionValidation \<Rightarrow> string \<Rightarrow> string \<Rightarrow> error_map
     \<Rightarrow> js_error + error_map" where
  "patternCheck E v key s errs =
    (case pattern v of
       None \<Rightarrow> Inr errs
     | Some p \<Rightarrow>
        (if p = [] then Inr errs
         else case newRegExp E p of
           None \<Rightarrow> Inl (SyntaxError p)
         | Some test \<Rightarrow>
             Inr (assignIf (\<not> test s) key
                    (case patternMessage v of
                       None \<Rightarrow> ''Invalid format''
                     | Some m \<Rightarrow> (if m \<noteq> [] then m else ''Invalid format'')) errs)))"

text \<open>The callback of \<^verbatim>\<open>currentStep.questions.forEach\<close> in \<^verbatim>\<open>validateStep\<close>.\<close>

definition validateQuestion ::
  "js_env \<Rightarrow> form_data \<Rightarrow> error_map \<Rightarrow> Question \<Rightarrow> js_error + error_map" where
  "validateQuestion E fd newErrors question =
    (if \<not> shouldShowQuestion E fd question then Inr newErrors
     else if question_type question = Q_hidden \<or> question_type question = Q_helper_text
     then Inr newErrors
     else
      (let key = fieldKey question;
           val = js_get fd key;
           v = validation question
       in if required v \<and> isArray val \<and> arrayLength val = 0
          then Inr (js_assign key ''This field is required'' newErrors)
          else if required v \<and> \<not> isArray val \<and> (\<not> truthy val \<or> val = JStr [])
          then Inr (js_assign key ''This field is required'' newErrors)
          else if truthy val
          then patternCheck E v key (js_String E val)
                 (rangeChecks E v key val (typeChecks question key (js_String E val) newErrors))
          else Inr newErrors))"

fun validateLoop ::
  "js_env \<Rightarrow> form_data \<Rightarrow> error_map \<Rightarrow> Question list \<Rightarrow> js_error + error_map" where
  "validateLoop E fd newErrors [] = Inr newErrors"
| "validateLoop E fd newErrors (q # qs) =
    (case validateQuestion E fd newErrors q of
       Inl e \<Rightarrow> Inl e
     | Inr errs \<Rightarrow> validateLoop E fd errs qs)"

text \<open>
  \<^verbatim>\<open>validateStep\<close>: the error object it passes to \<^verbatim>\<open>setErrors\<close>; its boolean result is
  that this object has no key.
\<close>

definition validateStep :: "js_env \<Rightarrow> form_data \<Rightarrow> Step \<Rightarrow> js_error + error_map" where
  "validateStep E fd step = validateLoop E fd [] (questions step)"

section \<open>The step runtime\<close>

text \<open>
  The component's \<^verbatim>\<open>useState\<close> values. A closure created during a render (an event
  handler, a timer callback) sees the values of that render, so a timer callback
  carries the state it captured.
\<close>

record PreviewState =
  currentStepIndex :: int
  formData :: form_data
  errors :: error_map
  isSubmitting :: bool
  submitted :: bool
  isTransitioning :: bool

text \<open>
  The callbacks given to \<^verbatim>\<open>setTimeout\<close>: the one of the auto-navigation effect (with
  the render it closes over and the matching rule), the auto-advance one of
  \<^verbatim>\<open>handleInputChange\<close>, the two of \<^verbatim>\<open>transitionToStep\<close>, and the continuation of
  \<^verbatim>\<open>handleSubmit\<close> after its simulated call.
\<close>

datatype callback =
    AutoNavCb PreviewState ConditionalNavigation
  | AutoAdvanceCb PreviewState
  | FadeOutCb int
  | FadeInCb
  | SubmitDoneCb

text \<open>
  The whole runtime: the committed state, the two refs, the clock in milliseconds and
  the pending timers with their due times, in the order they were scheduled.
\<close>

record Runtime =
  committed :: PreviewState
  isNavigating :: bool
  pendingStepIndex :: "int option"
  now :: nat
  timers :: "(nat \<times> callback) list"

definition setTimeout :: "callback \<Rightarrow> nat \<Rightarrow> Runtime \<Rightarrow> Runtime" where
  "setTimeout cb delay rt = rt\<lparr>timers := timers rt @ [(now rt + delay, cb)]\<rparr>"

definition handleSubmit :: "Runtime \<Rightarrow> Runtime" where
  "handleSubmit rt =
    setTimeout SubmitDoneCb 1500 (rt\<lparr>committed := (committed rt)\<lparr>isSubmitting := True\<rparr>\<rparr>)"

text \<open>\<^verbatim>\<open>transitionToStep\<close> of the render \<open>c\<close>: its guard reads the captured flag.\<close>

definition transitionToStep :: "PreviewState \<Rightarrow> int \<Rightarrow> Runtime \<Rightarrow> Runtime" where
  "transitionToStep c newIndex rt =
    (if isTransitioning c then rt
     else setTimeout (FadeOutCb newIndex) 150
            (rt\<lparr>committed := (committed rt)\<lparr>isTransitioning := True\<rparr>,
                pendingStepIndex := Some newIndex\<rparr>))"

text \<open>
  The auto-navigation effect, run after a render whose dependencies changed. It reads
  the state of that render and the live ref.
\<close>

definition autoNavEffect :: "js_env \<Rightarrow> Form \<Rightarrow> Runtime \<Rightarrow> Runtime" where
  "autoNavEffect E form rt =
    (let c = committed rt in
     case currentStep form (currentStepIndex c) of
       None \<Rightarrow> rt
     | Some step \<Rightarrow>
        (if isSubmitting c \<or> submitted c \<or> isNavigating rt \<or> isTransitioning c then rt
         else case find (\<lambda>nav. evaluateCondition E (formData c) (condition nav))
                     (sortedNavigation step) of
           None \<Rightarrow> rt
         | Some nav \<Rightarrow> setTimeout (AutoNavCb c nav) 300 (rt\<lparr>isNavigating := True\<rparr>)))"

text \<open>\<^verbatim>\<open>handleContinue\<close>; an exception of the validator leaves the handler.\<close>

definition conditionalNavMatched :: "js_env \<Rightarrow> form_data \<Rightarrow> Step \<Rightarrow> bool" where
  "conditionalNavMatched E fd step =
    list_ex (\<lambda>nav. evaluateCondition E fd (condition nav)) (conditionalNavigation step)"

definition navigateNext :: "js_env \<Rightarrow> Form \<Rightarrow> Step \<Rightarrow> Runtime \<Rightarrow> Runtime" where
  "navigateNext E form step rt =
    (let c = committed rt;
         nextIndex = getNextStepIndex E form (formData c) (currentStepIndex c) step
     in if isSubmitIndex form nextIndex then handleSubmit rt
        else transitionToStep c nextIndex (rt\<lparr>isNavigating := True\<rparr>))"

definition handleContinue :: "js_env \<Rightarrow> Form \<Rightarrow> Runtime \<Rightarrow> js_error + Runtime" where
  "handleContinue E form rt =
    (let c = committed rt in
     case currentStep form (currentStepIndex c) of
       None \<Rightarrow> Inr rt
     | Some step \<Rightarrow>
        (if isTransitioning c then Inr rt
         else if \<not> conditionalNavMatched E (formData c) step \<and> validateOnContinue step
         then (case validateStep E (formData c) step of
                 Inl e \<Rightarrow> Inl e
               | Inr newErrors \<Rightarrow>
                  (if newErrors \<noteq> []
                   then Inr (rt\<lparr>committed := c\<lparr>errors := newErrors\<rparr>\<rparr>)
                   else Inr (navigateNext E form step
                               (rt\<lparr>committed := c\<lparr>errors := newErrors\<rparr>\<rparr>))))
         else Inr (navigateNext E form step rt)))"

definition handleBack :: "Form \<Rightarrow> Runtime \<Rightarrow> Runtime" where
  "handleBack form rt =
    (let c = committed rt in
     case currentStep form (currentStepIndex c) of
       None \<Rightarrow> rt
     | Some step \<Rightarrow>
        (if isTransitioning c then rt
         else if str_truthy (defaultPrevStep step)
                 \<and> findIndex (\<lambda>s. Some (step_id s) = defaultPrevStep step) (steps form) \<noteq> -1
         then transitionToStep c
                (findIndex (\<lambda>s. Some (step_id s) = defaultPrevStep step) (steps form))
                (rt\<lparr>isNavigating := True\<rparr>)
         else transitionToStep c (max 0 (currentStepIndex c - 1))
                (rt\<lparr>isNavigating := True\<rparr>)))"

text \<open>
  \<^verbatim>\<open>handleInputChange\<close>. The auto-advance callback closes over the render in which the
  handler was created, that is, over the state before this change.
\<close>

text \<open>
  \<^verbatim>\<open>if (errors[key])\<close>: an own message that is not empty, or an inherited member.
  \<^verbatim>\<open>delete\<close> removes an own property only.
\<close>

definition errorPresent :: "error_map \<Rightarrow> string \<Rightarrow> bool" where
  "errorPresent errs key =
    (case map_of errs key of
       Some m \<Rightarrow> m \<noteq> []
     | None \<Rightarrow> key \<in> set objectPrototypeKeys)"

definition hasValidValue :: "jsval \<Rightarrow> bool" where
  "hasValidValue val =
    (val \<noteq> JStr [] \<and> val \<noteq> JNull \<and> val \<noteq> JUndefined
     \<and> \<not> (isArray val \<and> arrayLength val = 0))"

definition handleInputChange :: "Form \<Rightarrow> Question \<Rightarrow> jsval \<Rightarrow> Runtime \<Rightarrow> Runtime" where
  "handleInputChange form question val rt =
    (let c = committed rt in
     case currentStep form (currentStepIndex c) of
       None \<Rightarrow> rt
     | Some step \<Rightarrow>
        (let key = fieldKey question;
             errs = (if errorPresent (errors c) key
                     then AList.delete key (errors c) else errors c);
             rt1 = rt\<lparr>committed :=
                      c\<lparr>formData := AList.update key val (formData c), errors := errs\<rparr>\<rparr>
         in if autoAdvance step \<and> length (questions step) = 1
               \<and> hasValidValue val \<and> \<not> isNavigating rt \<and> \<not> isTransitioning c
            then setTimeout (AutoAdvanceCb c) 300 (rt1\<lparr>isNavigating := True\<rparr>)
            else rt1))"

definition resetPreview :: "Runtime \<Rightarrow> Runtime" where
  "resetPreview rt =
    rt\<lparr>committed := (committed rt)\<lparr>currentStepIndex := 0, formData := [], errors := [],
                                    submitted := False\<rparr>\<rparr>"

text \<open>Running a timer callback.\<close>

definition runCallback :: "js_env \<Rightarrow> Form \<Rightarrow> callback \<Rightarrow> Runtime \<Rightarrow> Runtime" where
  "runCallback E form cb rt =
    (case cb of
       AutoNavCb c nav \<Rightarrow>
         (if target_type (target nav) = Submit then handleSubmit rt
          else if target_type (target nav) = Specific \<and> str_truthy (stepId (target nav))
          then (let targetIndex =
                      findIndex (\<lambda>s. Some (step_id s) = stepId (target nav)) (steps form)
                in if targetIndex \<noteq> -1 then transitionToStep c targetIndex rt else rt)
          else if target_type (target nav) = Next
          then transitionToStep c (currentStepIndex c + 1) rt
          else rt)
     | AutoAdvanceCb c \<Rightarrow>
         (case currentStep form (currentStepIndex c) of
            None \<Rightarrow> rt
          | Some step \<Rightarrow>
             (let nextIndex = getNextStepIndex E form (formData c) (currentStepIndex c) step
              in if isSubmitIndex form nextIndex then handleSubmit rt
                 else transitionToStep c nextIndex rt))
     | FadeOutCb newIndex \<Rightarrow>
         setTimeout FadeInCb 150
           (rt\<lparr>committed := (committed rt)\<lparr>currentStepIndex := newIndex\<rparr>,
               pendingStepIndex := None\<rparr>)
     | FadeInCb \<Rightarrow>
         rt\<lparr>committed := (committed rt)\<lparr>isTransitioning := False\<rparr>, isNavigating := False\<rparr>
     | SubmitDoneCb \<Rightarrow>
         rt\<lparr>committed := (committed rt)\<lparr>submitted := True, isSubmitting := False\<rparr>\<rparr>)"

text \<open>
  The next timer to fire is the first one, in scheduling order, with the least due time.
\<close>

fun nextTimer :: "(nat \<times> callback) list \<Rightarrow> (nat \<times> callback) option" where
  "nextTimer [] = None"
| "nextTimer (t # ts) =
    (case nextTimer ts of
       None \<Rightarrow> Some t
     | Some u \<Rightarrow> (if fst t \<le> fst u then Some t else Some u))"

text \<open>
  After an event the component renders again, and the effect runs when one of its
  dependencies changed: the answer object (a new object after every \<^verbatim>\<open>setFormData\<close>),
  the step index, or one of the three flags.
\<close>

definition effectDeps :: "PreviewState \<Rightarrow> int \<times> bool \<times> bool \<times> bool" where
  "effectDeps c = (currentStepIndex c, isSubmitting c, submitted c, isTransitioning c)"

definition afterRender :: "js_env \<Rightarrow> Form \<Rightarrow> bool \<Rightarrow> PreviewState \<Rightarrow> Runtime \<Rightarrow> Runtime" where
  "afterRender E form formDataSet old rt =
    (if formDataSet \<or> effectDeps old \<noteq> effectDeps (committed rt)
     then autoNavEffect E form rt else rt)"

text \<open>
  The events of the runtime: a user action, the firing of the next timer, or time
  passing without any timer becoming due. Events are handled one at a time, each to
  completion, as on the single thread of the browser.
\<close>

datatype event =
    InputChange Question jsval
  | Continue
  | Back
  | Reset
  | TimerFires
  | Idle nat

definition fireTimer :: "js_env \<Rightarrow> Form \<Rightarrow> Runtime \<Rightarrow> Runtime" where
  "fireTimer E form rt =
    (case nextTimer (timers rt) of
       None \<Rightarrow> rt
     | Some t \<Rightarrow>
        runCallback E form (snd t)
          (rt\<lparr>now := max (now rt) (fst t), timers := remove1 t (timers rt)\<rparr>))"

definition idle :: "nat \<Rightarrow> Runtime \<Rightarrow> Runtime" where
  "idle d rt =
    (case nextTimer (timers rt) of
       None \<Rightarrow> rt\<lparr>now := now rt + d\<rparr>
     | Some t \<Rightarrow> rt\<lparr>now := max (now rt) (min (now rt + d) (fst t))\<rparr>)"

definition dispatch :: "js_env \<Rightarrow> Form \<Rightarrow> event \<Rightarrow> Runtime \<Rightarrow> js_error + Runtime" where
  "dispatch E form ev rt =
    (case ev of
       InputChange q val \<Rightarrow>
         Inr (afterRender E form True (committed rt) (handleInputChange form q val rt))
     | Continue \<Rightarrow>
         (case handleContinue E form rt of
            Inl e \<Rightarrow> Inl e
          | Inr rt' \<Rightarrow> Inr (afterRender E form False (committed rt) rt'))
     | Back \<Rightarrow> Inr (afterRender E form False (committed rt) (handleBack form rt))
     | Reset \<Rightarrow> Inr (afterRender E form True (committed rt) (resetPreview rt))
     | TimerFires \<Rightarrow> Inr (afterRender E form False (committed rt) (fireTimer E form rt))
     | Idle d \<Rightarrow> Inr (idle d rt))"


text \<open>The state after mounting: the initial values, and the effect run once.\<close>

definition initialState :: PreviewState where
  "initialState =
    \<lparr>currentStepIndex = 0, formData = [], errors = [], isSubmitting = False,
     submitted = False, isTransitioning = False\<rparr>"


text \<open>The runtime at rest on step \<open>i\<close>: nothing answered, no timer pending.\<close>

definition viewing :: "int \<Rightarrow> Runtime" where
  "viewing i =
    \<lparr>committed = initialState\<lparr>currentStepIndex := i\<rparr>, isNavigating = False,
     pendingStepIndex = None, now = 0, timers = []\<rparr>"

section \<open>The checks in the order the specification lists them\<close>

text \<open>
  Section 4.2 of the specification: the checks on a present value, as pairs of
  "this check fails" and its message, in the order type-specific, length, range, pattern.
  The message that surfaces is the one of the last failing check. The pattern check is
  listed with the matcher of the compiled pattern.
\<close>

definition orderedChecks ::
  "js_env \<Rightarrow> Question \<Rightarrow> jsval \<Rightarrow> (string \<Rightarrow> bool) option \<Rightarrow> (bool \<times> string) list" where
  "orderedChecks E q val test =
    (let s = js_String E val; v = validation q in
     [(question_type q = Q_email \<and> \<not> rx_test emailRegex s,
         ''Please enter a valid email address''),
      (question_type q = Q_phone \<and> \<not> rx_test phoneRegex s,
         ''Please enter a valid phone number''),
      (question_type q = Q_eircode \<and> eircodeInvalid s,
         ''Please enter a valid Eircode (e.g. D02 X285)''),
      (question_type q = Q_numberplate \<and> \<not> rx_test numberPlateRegex (toUpperCase s),
         ''Please enter a valid number plate (e.g. 191-D-12345)''),
      (question_type q = Q_date \<and> useDateInputMask q \<and> dateMaskError s \<noteq> None,
         (case dateMaskError s of None \<Rightarrow> [] | Some m \<Rightarrow> m)),
      (question_type q = Q_datetime \<and> useDateInputMask q \<and> datetimeMaskError s \<noteq> None,
         (case datetimeMaskError s of None \<Rightarrow> [] | Some m \<Rightarrow> m)),
      (belowLimit (minLength v) (Fin (of_nat (length s))),
         ''Minimum '' @ limitText E (minLength v) @ '' characters required''),
      (aboveLimit (maxLength v) (Fin (of_nat (length s))),
         ''Maximum '' @ limitText E (maxLength v) @ '' characters allowed''),
      ((case v_min v of None \<Rightarrow> False | Some m \<Rightarrow> js_lt (js_Number E val) m),
         ''Minimum value is '' @ limitText E (v_min v)),
      ((case v_max v of None \<Rightarrow> False | Some m \<Rightarrow> js_gt (js_Number E val) m),
         ''Maximum value is '' @ limitText E (v_max v)),
      ((case test of None \<Rightarrow> False | Some t \<Rightarrow> \<not> t s),
         (case patternMessage v of
            None \<Rightarrow> ''Invalid format''
          | Some m \<Rightarrow> (if m \<noteq> [] then m else ''Invalid format'')))])"



text \<open>Running a list of checks on one slot, each failing check assigning its message.\<close>

definition applyChecks :: "string \<Rightarrow> (bool \<times> string) list \<Rightarrow> error_map \<Rightarrow> error_map" where
  "applyChecks key cs errs = foldl (\<lambda>e cm. assignIf (fst cm) key (snd cm) e) errs cs"

text \<open>
  The questions on which the validator gets as far as the checks on a present value:
  shown, of an input type, with a truthy answer that is not an empty array of a required
  field.
\<close>

definition checksPresentValue :: "js_env \<Rightarrow> form_data \<Rightarrow> Question \<Rightarrow> bool" where
  "checksPresentValue E fd q =
    (shouldShowQuestion E fd q
     \<and> question_type q \<noteq> Q_hidden \<and> question_type q \<noteq> Q_helper_text
     \<and> truthy (js_get fd (fieldKey q))
     \<and> \<not> (required (validation q) \<and> isArray (js_get fd (fieldKey q))
            \<and> arrayLength (js_get fd (fieldKey q)) = 0))"

text \<open>The matcher the pattern check uses: none when no pattern is set.\<close>

definition compiledPattern :: "js_env \<Rightarrow> QuestionValidation \<Rightarrow> (string \<Rightarrow> bool) option" where
  "compiledPattern E v =
    (case pattern v of None \<Rightarrow> None | Some p \<Rightarrow> (if p = [] then None else newRegExp E p))"

definition patternCompiles :: "js_env \<Rightarrow> QuestionValidation \<Rightarrow> bool" where
  "patternCompiles E v =
    (case pattern v of None \<Rightarrow> True | Some p \<Rightarrow> p = [] \<or> newRegExp E p \<noteq> None)"

section \<open>Example documents\<close>

text \<open>
  An environment for the closed examples. It agrees with the language on the inputs the
  examples use: numerals of integers, decimal integer literals, patterns made of letters
  and digits only (which match the strings that contain them) and the pattern \<^verbatim>\<open>(\<close>,
  which does not compile. Built-in functions print as V8 prints them. No example depends
  on its values elsewhere.
\<close>

definition is_alnum :: "char \<Rightarrow> bool" where
  "is_alnum c =
    (c \<in> set ''abcdefghijklmnopqrstuvwxyzABCDEFGHIJKLMNOPQRSTUVWXYZ0123456789'')"

definition example_numToString :: "jsnum \<Rightarrow> string" where
  "example_numToString n =
    (case n of
       NaN \<Rightarrow> ''NaN''
     | PosInf \<Rightarrow> ''Infinity''
     | NegInf \<Rightarrow> ''-Infinity''
     | Fin r \<Rightarrow> (if r < 0 then ''-'' else []) @ decimal (nat \<bar>\<lfloor>r\<rfloor>\<bar>))"

definition example_stringToNumber :: "string \<Rightarrow> jsnum" where
  "example_stringToNumber s =
    (let t = dropWhile is_space (rev (dropWhile is_space (rev s))) in
     if t = [] then Fin 0
     else case parseInt10 t of
       None \<Rightarrow> NaN
     | Some n \<Rightarrow> (if list_all is_digit (tl t) then Fin (of_int n) else NaN))"

definition example_newRegExp :: "string \<Rightarrow> (string \<Rightarrow> bool) option" where
  "example_newRegExp p = (if p \<noteq> [] \<and> list_all is_alnum p then Some (sublist p) else None)"

definition example_functionToString :: "string \<Rightarrow> string" where
  "example_functionToString k =
    ''function '' @ (if k = ''constructor'' then ''Object'' else k) @ ''() { [native code] }''"

definition example_env :: js_env where
  "example_env =
    \<lparr>numToString = example_numToString, stringToNumber = example_stringToNumber,
     newRegExp = example_newRegExp, functionToString = example_functionToString\<rparr>"

definition noValidation :: QuestionValidation where
  "noValidation =
    \<lparr>required = False, minLength = None, maxLength = None, v_min = None, v_max = None,
     pattern = None, patternMessage = None\<rparr>"

definition plainQuestion :: "string \<Rightarrow> QuestionType \<Rightarrow> Question" where
  "plainQuestion qid t =
    \<lparr>question_id = qid, question_type = t, fieldName = None, validation = noValidation,
     conditionalDisplay = None, useDateInputMask = False\<rparr>"

definition plainStep :: "string \<Rightarrow> Step" where
  "plainStep sid =
    \<lparr>step_id = sid, questions = [], conditionalNavigation = [], defaultNextStep = None,
     defaultPrevStep = None, validateOnContinue = True, autoAdvance = False,
     enterKeyAdvance = False\<rparr>"

definition linearForm :: "Step list \<Rightarrow> Form" where
  "linearForm ss =
    \<lparr>steps = ss,
     progressConfig = \<lparr>mode = Linear, stepWeights = None, exponentialBase = None\<rparr>\<rparr>"

text \<open>Steps A, B and C without rules or defaults.\<close>

definition formABC :: Form where
  "formABC = linearForm [plainStep ''A'', plainStep ''B'', plainStep ''C'']"

text \<open>
  The two rules of the priority example: field X equals "yes" goes to step C with
  priority 10, and an always-true rule (a conjunction of no rules) goes to the next step
  with priority 5. Step A lists the lower priority first.
\<close>

definition ruleYesToC :: ConditionalNavigation where
  "ruleYesToC =
    \<lparr>condition = \<lparr>logic = AND,
        rules = [\<lparr>questionId = ''X'', operator = Equals, rule_value = ''yes''\<rparr>]\<rparr>,
     target = \<lparr>target_type = Specific, stepId = Some ''C''\<rparr>, priority = 10\<rparr>"

definition ruleAlwaysNext :: ConditionalNavigation where
  "ruleAlwaysNext =
    \<lparr>condition = \<lparr>logic = AND, rules = []\<rparr>,
     target = \<lparr>target_type = Next, stepId = None\<rparr>, priority = 5\<rparr>"

definition stepA_rules :: Step where
  "stepA_rules = (plainStep ''A'')\<lparr>conditionalNavigation := [ruleAlwaysNext, ruleYesToC]\<rparr>"

definition formRules :: Form where
  "formRules = linearForm [stepA_rules, plainStep ''B'', plainStep ''C'']"

text \<open>A step with one required text question that does not validate on Continue.\<close>

definition requiredName :: Question where
  "requiredName = (plainQuestion ''name'' Q_text)\<lparr>validation := noValidation\<lparr>required := True\<rparr>\<rparr>"

definition stepNoValidate :: Step where
  "stepNoValidate = (plainStep ''A'')\<lparr>questions := [requiredName], validateOnContinue := False\<rparr>"

definition formNoValidate :: Form where
  "formNoValidate = linearForm [stepNoValidate, plainStep ''B'']"

definition stepValidate :: Step where
  "stepValidate = (plainStep ''A'')\<lparr>questions := [requiredName]\<rparr>"

definition formValidate :: Form where
  "formValidate = linearForm [stepValidate, plainStep ''B'']"




text \<open>A text question whose pattern is the single character \<^verbatim>\<open>(\<close>.\<close>

definition badPattern :: Question where
  "badPattern =
    (plainQuestion ''code'' Q_text)\<lparr>validation := noValidation\<lparr>pattern := Some ''(''\<rparr>\<rparr>"

definition stepBadPattern :: Step where
  "stepBadPattern = (plainStep ''A'')\<lparr>questions := [badPattern]\<rparr>"

text \<open>An eircode question, and an email question with a pattern.\<close>

definition eircodeQuestion :: Question where
  "eircodeQuestion = plainQuestion ''eircode'' Q_eircode"

definition stepEircode :: Step where
  "stepEircode = (plainStep ''A'')\<lparr>questions := [eircodeQuestion]\<rparr>"

definition emailWithPattern :: Question where
  "emailWithPattern =
    (plainQuestion ''mail'' Q_email)\<lparr>validation :=
       noValidation\<lparr>pattern := Some ''example'', patternMessage := Some ''Use the example domain''\<rparr>\<rparr>"



definition stepEmail :: Step where
  "stepEmail = (plainStep ''A'')\<lparr>questions := [emailWithPattern]\<rparr>"

section \<open>The condition evaluator\<close>

lemma falsy_values:
  "\<not> truthy v \<longleftrightarrow> v \<in> {JUndefined, JNull, JBool False, JNum NaN, JNum (Fin 0), JStr []}"
  by (cases v) auto

lemma objectPrototypeKeys_set:
  "set objectPrototypeKeys =
     {''constructor'', ''hasOwnProperty'', ''isPrototypeOf'', ''propertyIsEnumerable'',
      ''toLocaleString'', ''toString'', ''valueOf'', ''__proto__'', ''__defineGetter__'',
      ''__defineSetter__'', ''__lookupGetter__'', ''__lookupSetter__''}"
  unfolding objectPrototypeKeys_def by (simp only: list.set)

lemma js_get_own: "map_of fd k = Some v \<Longrightarrow> js_get fd k = v"
  by (simp add: js_get_def)

lemma js_get_missing:
  "map_of fd k = None \<Longrightarrow> k \<notin> set objectPrototypeKeys \<Longrightarrow> js_get fd k = JUndefined"
  by (simp add: js_get_def)

text \<open>
  Claim C4, as the code has it. The evaluator resolves the value under comparison as
  \<^verbatim>\<open>formData[rule.questionId] || ''\<close>. An answer the map holds is compared as it is when
  it is truthy, and is replaced by the empty string when it is falsy (\<^verbatim>\<open>undefined\<close>,
  \<^verbatim>\<open>null\<close>, \<^verbatim>\<open>false\<close>, \<^verbatim>\<open>NaN\<close>, \<^verbatim>\<open>0\<close>, the empty string). A question id that is
  not a key of the answer map, and is not the name of one of the members every object
  inherits, is evaluated against the empty string. The evaluator is total, so it
  raises no error.
\<close>

theorem evaluateRule_falsy_default:
  "(map_of fd (questionId r) = Some a \<and> truthy a \<longrightarrow>
      evaluateRule E fd r = evaluateRuleOn E a r)
   \<and> (map_of fd (questionId r) = Some a \<and> \<not> truthy a \<longrightarrow>
      evaluateRule E fd r = evaluateRuleOn E (JStr []) r)
   \<and> (\<not> truthy v \<longleftrightarrow> v \<in> {JUndefined, JNull, JBool False, JNum NaN, JNum (Fin 0), JStr []})
   \<and> (map_of fd (questionId r) = None
        \<and> questionId r \<notin>
            {''constructor'', ''hasOwnProperty'', ''isPrototypeOf'', ''propertyIsEnumerable'',
             ''toLocaleString'', ''toString'', ''valueOf'', ''__proto__'', ''__defineGetter__'',
             ''__defineSetter__'', ''__lookupGetter__'', ''__lookupSetter__''} \<longrightarrow>
      evaluateRule E fd r = evaluateRuleOn E (JStr []) r)"
proof (intro conjI impI)
  show "evaluateRule E fd r = evaluateRuleOn E a r"
    if "map_of fd (questionId r) = Some a \<and> truthy a"
    using that by (simp add: evaluateRule_def js_or_def js_get_own)
  show "evaluateRule E fd r = evaluateRuleOn E (JStr []) r"
    if "map_of fd (questionId r) = Some a \<and> \<not> truthy a"
    using that by (simp add: evaluateRule_def js_or_def js_get_own)
  show "\<not> truthy v \<longleftrightarrow> v \<in> {JUndefined, JNull, JBool False, JNum NaN, JNum (Fin 0), JStr []}"
    by (rule falsy_values)
  show "evaluateRule E fd r = evaluateRuleOn E (JStr []) r"
    if "map_of fd (questionId r) = None
        \<and> questionId r \<notin>
            {''constructor'', ''hasOwnProperty'', ''isPrototypeOf'', ''propertyIsEnumerable'',
             ''toLocaleString'', ''toString'', ''valueOf'', ''__proto__'', ''__defineGetter__'',
             ''__defineSetter__'', ''__lookupGetter__'', ''__lookupSetter__''}"
  proof -
    from that have "js_get fd (questionId r) = JUndefined"
      by (intro js_get_missing) (simp_all only: objectPrototypeKeys_set, simp_all)
    then show ?thesis
      by (simp add: evaluateRule_def js_or_def)
  qed
qed

theorem evaluateRule_falsy_default_witness:
  "map_of ([] :: form_data) ''age'' = None
   \<and> evaluateRule example_env [] \<lparr>questionId = ''age'', operator = Is_empty, rule_value = ''''\<rparr>
   \<and> map_of [(''city'', JStr ''Cork'')] ''city'' = Some (JStr ''Cork'')
   \<and> evaluateRule example_env [(''city'', JStr ''Cork'')]
        \<lparr>questionId = ''city'', operator = Equals, rule_value = ''Cork''\<rparr>
   \<and> map_of [(''rating'', JNum (Fin 0))] ''rating'' = Some (JNum (Fin 0))
   \<and> evaluateRule example_env [(''rating'', JNum (Fin 0))]
        \<lparr>questionId = ''rating'', operator = Is_empty, rule_value = ''''\<rparr>"
  using evaluateRule_falsy_default
    [of "[]" "\<lparr>questionId = ''age'', operator = Is_empty, rule_value = ''''\<rparr>" JNull
        example_env JNull]
    evaluateRule_falsy_default
    [of "[(''city'', JStr ''Cork'')]"
        "\<lparr>questionId = ''city'', operator = Equals, rule_value = ''Cork''\<rparr>" "JStr ''Cork''"
        example_env JNull]
    evaluateRule_falsy_default
    [of "[(''rating'', JNum (Fin 0))]"
        "\<lparr>questionId = ''rating'', operator = Is_empty, rule_value = ''''\<rparr>" "JNum (Fin 0)"
        example_env JNull]
  by (simp add: evaluateRuleOn_def)

text \<open>
  Claim C4 as it is stated fails in two ways. A slider at \<open>0\<close> is a present answer, and
  the rule "equals the empty string" holds of it in the code, while it does not hold of
  the number \<open>0\<close> compared as it is, nor under the resolution with \<^verbatim>\<open>??\<close>. And the
  question id \<^verbatim>\<open>toString\<close> is not a key of the empty answer map, yet the rule "is
  empty" does not hold of it, as it would of the empty string: the value read is the
  inherited function.
\<close>

theorem evaluateRule_nullish_counterexample:
  "evaluateRule example_env [(''slider'', JNum (Fin 0))]
      \<lparr>questionId = ''slider'', operator = Equals, rule_value = ''''\<rparr>
   \<and> \<not> evaluateRule_nullish example_env [(''slider'', JNum (Fin 0))]
      \<lparr>questionId = ''slider'', operator = Equals, rule_value = ''''\<rparr>
   \<and> \<not> evaluateRuleOn example_env (JNum (Fin 0))
      \<lparr>questionId = ''slider'', operator = Equals, rule_value = ''''\<rparr>
   \<and> map_of ([] :: form_data) ''toString'' = None
   \<and> \<not> evaluateRule example_env []
      \<lparr>questionId = ''toString'', operator = Is_empty, rule_value = ''''\<rparr>
   \<and> evaluateRuleOn example_env (JStr [])
      \<lparr>questionId = ''toString'', operator = Is_empty, rule_value = ''''\<rparr>"
  by code_simp

text \<open>
  Claim C5. On an array-valued answer, \<^verbatim>\<open>contains\<close> holds exactly when the string form
  of some element contains the compare value, \<^verbatim>\<open>not_contains\<close> holds exactly when the
  string form of no element contains it, and the second is the negation of the first.
\<close>

theorem contains_on_arrays:
  "js_get fd q = JArr vs \<Longrightarrow>
     (evaluateRule E fd \<lparr>questionId = q, operator = Contains, rule_value = cv\<rparr>
        \<longleftrightarrow> (\<exists>v \<in> set vs. sublist cv (js_String E v)))
   \<and> (evaluateRule E fd \<lparr>questionId = q, operator = Not_contains, rule_value = cv\<rparr>
        \<longleftrightarrow> (\<forall>v \<in> set vs. \<not> sublist cv (js_String E v)))
   \<and> (evaluateRule E fd \<lparr>questionId = q, operator = Not_contains, rule_value = cv\<rparr>
        \<longleftrightarrow> \<not> evaluateRule E fd \<lparr>questionId = q, operator = Contains, rule_value = cv\<rparr>)"
  by (simp add: evaluateRule_def evaluateRuleOn_def js_or_def list_ex_iff)

theorem contains_on_arrays_witness:
  "js_get [(''fruit'', JArr [JStr ''pear'', JStr ''red apple''])] ''fruit''
      = JArr [JStr ''pear'', JStr ''red apple'']
   \<and> evaluateRule example_env [(''fruit'', JArr [JStr ''pear'', JStr ''red apple''])]
        \<lparr>questionId = ''fruit'', operator = Contains, rule_value = ''app''\<rparr>
   \<and> \<not> evaluateRule example_env [(''fruit'', JArr [JStr ''pear'', JStr ''red apple''])]
        \<lparr>questionId = ''fruit'', operator = Not_contains, rule_value = ''app''\<rparr>
   \<and> (\<exists>v \<in> set [JStr ''pear'', JStr ''red apple'']. sublist ''app'' (js_String example_env v))"
proof -
  have h: "js_get [(''fruit'', JArr [JStr ''pear'', JStr ''red apple''])] ''fruit''
      = JArr [JStr ''pear'', JStr ''red apple'']"
    by (simp add: js_get_def)
  have s: "sublist ''app'' ''red apple''"
    by code_simp
  show ?thesis
    using contains_on_arrays [OF h, of example_env "''app''"] h s by simp
qed

section \<open>The progress calculation\<close>

text \<open>
  Claim C10. In the modes \<^verbatim>\<open>linear\<close> and \<^verbatim>\<open>step_based\<close> the progress is
  \<open>(currentIndex + 1) / totalSteps * 100\<close>, and it is \<open>0\<close> when there is no step; with
  four steps, index 0 gives 25 and index 3 gives 100.
\<close>

theorem progress_linear_step_based:
  "mode (progressConfig form) = Linear \<or> mode (progressConfig form) = Step_based \<Longrightarrow>
     progress form fd i =
       (if steps form = [] then Fin 0
        else Fin (of_int (i + 1) / of_nat (length (steps form)) * 100))
   \<and> (length (steps form) = 4 \<longrightarrow> progress form fd 0 = Fin 25 \<and> progress form fd 3 = Fin 100)"
  by (auto simp: progress_def currentStep_def js_index_def Let_def split: option.splits)

theorem progress_linear_step_based_witness:
  "mode (progressConfig (linearForm
      [plainStep ''s1'', plainStep ''s2'', plainStep ''s3'', plainStep ''s4''])) = Linear
   \<and> length (steps (linearForm
      [plainStep ''s1'', plainStep ''s2'', plainStep ''s3'', plainStep ''s4''])) = 4
   \<and> progress (linearForm
      [plainStep ''s1'', plainStep ''s2'', plainStep ''s3'', plainStep ''s4'']) [] 0 = Fin 25
   \<and> progress (linearForm
      [plainStep ''s1'', plainStep ''s2'', plainStep ''s3'', plainStep ''s4'']) [] 3 = Fin 100
   \<and> progress (linearForm []) [] 0 = Fin 0"
  using progress_linear_step_based
    [of "linearForm [plainStep ''s1'', plainStep ''s2'', plainStep ''s3'', plainStep ''s4'']" "[]" 0]
    progress_linear_step_based [of "linearForm []" "[]" 0]
  by (simp add: linearForm_def)

section \<open>The navigation resolver\<close>

lemma findIndex_ge: "- 1 \<le> findIndex P xs"
  by (induction xs) (auto simp: Let_def)

lemma findIndex_none: "findIndex P xs = -1 \<longleftrightarrow> (\<forall>x \<in> set xs. \<not> P x)"
proof (induction xs)
  case Nil
  then show ?case by simp
next
  case (Cons a xs)
  with findIndex_ge [of P xs] show ?case
    by (auto simp: Let_def)
qed

lemma findIndex_found:
  "\<exists>x \<in> set xs. P x \<Longrightarrow>
     0 \<le> findIndex P xs \<and> findIndex P xs < int (length xs)
     \<and> P (xs ! nat (findIndex P xs)) \<and> (\<forall>j < nat (findIndex P xs). \<not> P (xs ! j))"
proof (induction xs)
  case Nil
  then show ?case by simp
next
  case (Cons x xs)
  show ?case
  proof (cases "P x")
    case True
    then show ?thesis by simp
  next
    case False
    with Cons.prems have ex: "\<exists>x \<in> set xs. P x" by simp
    from Cons.IH [OF ex] have ih: "0 \<le> findIndex P xs" "findIndex P xs < int (length xs)"
      "P (xs ! nat (findIndex P xs))" "\<forall>j < nat (findIndex P xs). \<not> P (xs ! j)"
      by simp_all
    have eq: "findIndex P (x # xs) = findIndex P xs + 1"
      using False ih(1) by (simp add: Let_def)
    have n: "nat (findIndex P xs + 1) = Suc (nat (findIndex P xs))"
      using ih(1) by simp
    show ?thesis
      unfolding eq n using ih False by (auto simp: less_Suc_eq_0_disj)
  qed
qed

lemma navLoop_skip:
  "\<forall>n \<in> set pre. \<not> evaluateCondition E fd (condition n) \<Longrightarrow>
     navLoop E fd ss i (pre @ rest) = navLoop E fd ss i rest"
  by (induction pre) auto

lemma navLoop_none:
  "\<forall>n \<in> set navs. \<not> evaluateCondition E fd (condition n) \<Longrightarrow> navLoop E fd ss i navs = None"
  using navLoop_skip [of navs E fd ss i "[]"] by simp

lemma sortedNavigation_mset: "mset (sortedNavigation step) = mset (conditionalNavigation step)"
  by (simp add: sortedNavigation_def)

lemma sortedNavigation_set: "set (sortedNavigation step) = set (conditionalNavigation step)"
  by (simp add: sortedNavigation_def)

lemma sortedNavigation_sorted:
  "sorted_wrt (\<lambda>a b. priority a \<ge> priority b) (sortedNavigation step)"
proof -
  have "sorted (map (\<lambda>nav. - priority nav) (sortedNavigation step))"
    by (simp add: sortedNavigation_def)
  then show ?thesis
    by (simp add: sorted_wrt_map)
qed

lemma sortedNavigation_stable:
  "filter (\<lambda>n. priority n = p) (sortedNavigation step)
     = filter (\<lambda>n. priority n = p) (conditionalNavigation step)"
proof -
  have "filter (\<lambda>n. - priority n = - p) (sortedNavigation step)
     = filter (\<lambda>n. - priority n = - p) (conditionalNavigation step)"
    unfolding sortedNavigation_def by (rule sort_key_stable)
  then show ?thesis by simp
qed

lemma sortedNavigation_suffix:
  assumes "sortedNavigation step = pre @ post"
  shows "sortedNavigation (step\<lparr>conditionalNavigation := post\<rparr>) = post"
proof -
  have "sorted (map (\<lambda>nav. - priority nav) (pre @ post))"
    using assms [symmetric] by (simp add: sortedNavigation_def)
  then have "sorted (map (\<lambda>nav. - priority nav) post)"
    by (simp add: sorted_append)
  then show ?thesis
    by (simp add: sortedNavigation_def sort_key_id_if_sorted)
qed

text \<open>
  Claim C1. The resolver goes through the step's rules sorted by priority, highest first,
  rules of equal priority in their original order. At the first rule whose condition is
  true, a \<^verbatim>\<open>submit\<close> target gives submit (\<open>-1\<close>), a \<^verbatim>\<open>next\<close> target gives the current
  index plus one, and a \<^verbatim>\<open>specific\<close> target gives the index of its step id in the step
  list; when that id is not found, the result is the one the later rules give. The last
  part says what the index of a step id is: the first position with that id.
\<close>

theorem getNextStepIndex_conditional:
  "mset (sortedNavigation step) = mset (conditionalNavigation step)
   \<and> sorted_wrt (\<lambda>a b. priority a \<ge> priority b) (sortedNavigation step)
   \<and> (\<forall>p. filter (\<lambda>n. priority n = p) (sortedNavigation step)
            = filter (\<lambda>n. priority n = p) (conditionalNavigation step))
   \<and> (sortedNavigation step = pre @ nav # post
        \<and> (\<forall>n \<in> set pre. \<not> evaluateCondition E fd (condition n))
        \<and> evaluateCondition E fd (condition nav) \<longrightarrow>
         (target_type (target nav) = Submit \<longrightarrow> getNextStepIndex E form fd i step = -1)
       \<and> (target_type (target nav) = Next \<longrightarrow> getNextStepIndex E form fd i step = i + 1)
       \<and> (target_type (target nav) = Specific \<longrightarrow>
            getNextStepIndex E form fd i step =
              (if str_truthy (stepId (target nav))
                  \<and> (\<exists>s \<in> set (steps form). Some (step_id s) = stepId (target nav))
               then findIndex (\<lambda>s. Some (step_id s) = stepId (target nav)) (steps form)
               else getNextStepIndex E form fd i (step\<lparr>conditionalNavigation := post\<rparr>))))
   \<and> ((\<exists>s \<in> set (steps form). step_id s = sid) \<longrightarrow>
         0 \<le> findIndex (\<lambda>s. Some (step_id s) = Some sid) (steps form)
       \<and> findIndex (\<lambda>s. Some (step_id s) = Some sid) (steps form) < int (length (steps form))
       \<and> step_id (steps form ! nat (findIndex (\<lambda>s. Some (step_id s) = Some sid) (steps form))) = sid
       \<and> (\<forall>j < nat (findIndex (\<lambda>s. Some (step_id s) = Some sid) (steps form)).
             step_id (steps form ! j) \<noteq> sid))"
proof (intro conjI allI impI)
  show "mset (sortedNavigation step) = mset (conditionalNavigation step)"
    by (rule sortedNavigation_mset)
  show "sorted_wrt (\<lambda>a b. priority a \<ge> priority b) (sortedNavigation step)"
    by (rule sortedNavigation_sorted)
  show "filter (\<lambda>n. priority n = p) (sortedNavigation step)
            = filter (\<lambda>n. priority n = p) (conditionalNavigation step)" for p
    by (rule sortedNavigation_stable)
next
  assume a: "sortedNavigation step = pre @ nav # post
        \<and> (\<forall>n \<in> set pre. \<not> evaluateCondition E fd (condition n))
        \<and> evaluateCondition E fd (condition nav)"
  then have loop: "navLoop E fd (steps form) i (sortedNavigation step)
      = navLoop E fd (steps form) i (nav # post)"
    using navLoop_skip [of pre E fd "steps form" i "nav # post"] by simp
  {
    assume "target_type (target nav) = Submit"
    then show "getNextStepIndex E form fd i step = -1"
      using a loop by (simp add: getNextStepIndex_def)
  }
  {
    assume "target_type (target nav) = Next"
    then show "getNextStepIndex E form fd i step = i + 1"
      using a loop by (simp add: getNextStepIndex_def)
  }
  {
    assume sp: "target_type (target nav) = Specific"
    have post: "sortedNavigation (step\<lparr>conditionalNavigation := post\<rparr>) = post"
      using sortedNavigation_suffix [of step "pre @ [nav]" post] a by simp
    show "getNextStepIndex E form fd i step =
              (if str_truthy (stepId (target nav))
                  \<and> (\<exists>s \<in> set (steps form). Some (step_id s) = stepId (target nav))
               then findIndex (\<lambda>s. Some (step_id s) = stepId (target nav)) (steps form)
               else getNextStepIndex E form fd i (step\<lparr>conditionalNavigation := post\<rparr>))"
      using a loop sp post
      by (auto simp: getNextStepIndex_def findIndex_none split: option.splits)
  }
next
  assume "\<exists>s \<in> set (steps form). step_id s = sid"
  then have "\<exists>s \<in> set (steps form). Some (step_id s) = Some sid" by simp
  from findIndex_found [of "steps form" "\<lambda>s. Some (step_id s) = Some sid", OF this]
  show "0 \<le> findIndex (\<lambda>s. Some (step_id s) = Some sid) (steps form)"
    and "findIndex (\<lambda>s. Some (step_id s) = Some sid) (steps form) < int (length (steps form))"
    and "step_id (steps form ! nat (findIndex (\<lambda>s. Some (step_id s) = Some sid) (steps form))) = sid"
    and "\<And>j. j < nat (findIndex (\<lambda>s. Some (step_id s) = Some sid) (steps form)) \<Longrightarrow>
             step_id (steps form ! j) \<noteq> sid"
    by auto
qed

lemma sortedNavigation_stepA: "sortedNavigation stepA_rules = [ruleYesToC, ruleAlwaysNext]"
  by (simp add: sortedNavigation_def stepA_rules_def plainStep_def ruleYesToC_def
      ruleAlwaysNext_def)

lemma example_conditions:
  "evaluateCondition example_env [(''X'', JStr ''yes'')] (condition ruleYesToC)"
  "evaluateCondition example_env [(''X'', JStr ''yes'')] (condition ruleAlwaysNext)"
  by (simp_all add: evaluateCondition_def evaluateRule_def evaluateRuleOn_def js_or_def
      js_get_def ruleYesToC_def ruleAlwaysNext_def)

text \<open>
  The example of claim C1: with X answered "yes", both rules of step A match, and the
  rule of priority 10 selects step C, although the rule of priority 5 comes first in
  the document.
\<close>

theorem getNextStepIndex_conditional_witness:
  "sortedNavigation stepA_rules = [] @ ruleYesToC # [ruleAlwaysNext]
   \<and> evaluateCondition example_env [(''X'', JStr ''yes'')] (condition ruleYesToC)
   \<and> evaluateCondition example_env [(''X'', JStr ''yes'')] (condition ruleAlwaysNext)
   \<and> priority ruleYesToC = 10 \<and> priority ruleAlwaysNext = 5
   \<and> target_type (target ruleYesToC) = Specific
   \<and> getNextStepIndex example_env formRules [(''X'', JStr ''yes'')] 0 stepA_rules = 2
   \<and> step_id (steps formRules ! 2) = ''C''"
proof -
  have t: "target_type (target ruleYesToC) = Specific" "stepId (target ruleYesToC) = Some ''C''"
    "priority ruleYesToC = 10" "priority ruleAlwaysNext = 5"
    by (simp_all add: ruleYesToC_def ruleAlwaysNext_def)
  have s: "map step_id (steps formRules) = [''A'', ''B'', ''C'']"
    by (simp add: formRules_def linearForm_def stepA_rules_def plainStep_def)
  have f: "findIndex (\<lambda>s. Some (step_id s) = Some ''C'') (steps formRules) = 2"
    by (simp add: formRules_def linearForm_def stepA_rules_def plainStep_def)
  have e: "\<exists>s \<in> set (steps formRules). Some (step_id s) = Some ''C''"
    by (simp add: formRules_def linearForm_def stepA_rules_def plainStep_def)
  have c: "step_id (steps formRules ! 2) = ''C''"
    by (simp add: formRules_def linearForm_def stepA_rules_def plainStep_def)
  show ?thesis
    using getNextStepIndex_conditional [of stepA_rules "[]" ruleYesToC "[ruleAlwaysNext]"
        example_env "[(''X'', JStr ''yes'')]" formRules 0 "''C''"]
      sortedNavigation_stepA example_conditions t f e c
    by simp
qed

lemma getNextStepIndex_no_match:
  assumes "\<forall>n \<in> set (conditionalNavigation step). \<not> evaluateCondition E fd (condition n)"
  shows "getNextStepIndex E form fd i step =
       (if str_truthy (defaultNextStep step)
           \<and> (\<exists>s \<in> set (steps form). Some (step_id s) = defaultNextStep step)
        then findIndex (\<lambda>s. Some (step_id s) = defaultNextStep step) (steps form)
        else i + 1)"
proof -
  have "navLoop E fd (steps form) i (sortedNavigation step) = None"
    using assms by (intro navLoop_none) (simp add: sortedNavigation_set)
  then show ?thesis
    by (auto simp: getNextStepIndex_def findIndex_none)
qed

lemma navigateNext_submit:
  assumes "isSubmitIndex form
     (getNextStepIndex E form (formData (committed rt)) (currentStepIndex (committed rt)) step)"
  shows "navigateNext E form step rt =
           rt\<lparr>committed := (committed rt)\<lparr>isSubmitting := True\<rparr>,
              timers := timers rt @ [(now rt + 1500, SubmitDoneCb)]\<rparr>"
  using assms by (simp add: navigateNext_def handleSubmit_def setTimeout_def Let_def)

lemma navigateNext_step:
  assumes "\<not> isSubmitIndex form
     (getNextStepIndex E form (formData (committed rt)) (currentStepIndex (committed rt)) step)"
    and "\<not> isTransitioning (committed rt)"
  shows "navigateNext E form step rt =
           rt\<lparr>committed := (committed rt)\<lparr>isTransitioning := True\<rparr>,
              isNavigating := True,
              pendingStepIndex := Some (getNextStepIndex E form (formData (committed rt))
                                          (currentStepIndex (committed rt)) step),
              timers := timers rt @ [(now rt + 150,
                 FadeOutCb (getNextStepIndex E form (formData (committed rt))
                                          (currentStepIndex (committed rt)) step))]\<rparr>"
  using assms by (simp add: navigateNext_def transitionToStep_def setTimeout_def Let_def)

text \<open>
  Claim C2. When no rule's condition is true, the resolver returns the index of
  \<^verbatim>\<open>defaultNextStep\<close> when it is set and is the id of a step, and the current index plus
  one otherwise. An index of \<open>-1\<close> or one that is at least the number of steps submits the
  form: the handler sets \<^verbatim>\<open>isSubmitting\<close> and the form is \<^verbatim>\<open>submitted\<close> when the simulated
  call returns; any other index starts the transition that commits that index.
\<close>

theorem getNextStepIndex_default:
  "((\<forall>n \<in> set (conditionalNavigation step). \<not> evaluateCondition E fd (condition n)) \<longrightarrow>
      getNextStepIndex E form fd i step =
       (if str_truthy (defaultNextStep step)
           \<and> (\<exists>s \<in> set (steps form). Some (step_id s) = defaultNextStep step)
        then findIndex (\<lambda>s. Some (step_id s) = defaultNextStep step) (steps form)
        else i + 1))
   \<and> (isSubmitIndex form n \<longleftrightarrow> n = -1 \<or> int (length (steps form)) \<le> n)
   \<and> (isSubmitIndex form
         (getNextStepIndex E form (formData (committed rt)) (currentStepIndex (committed rt)) step)
       \<longrightarrow> navigateNext E form step rt =
             rt\<lparr>committed := (committed rt)\<lparr>isSubmitting := True\<rparr>,
                timers := timers rt @ [(now rt + 1500, SubmitDoneCb)]\<rparr>)
   \<and> (\<not> isSubmitIndex form
         (getNextStepIndex E form (formData (committed rt)) (currentStepIndex (committed rt)) step)
       \<and> \<not> isTransitioning (committed rt)
       \<longrightarrow> navigateNext E form step rt =
             rt\<lparr>committed := (committed rt)\<lparr>isTransitioning := True\<rparr>,
                isNavigating := True,
                pendingStepIndex := Some (getNextStepIndex E form (formData (committed rt))
                                          (currentStepIndex (committed rt)) step),
                timers := timers rt @ [(now rt + 150,
                   FadeOutCb (getNextStepIndex E form (formData (committed rt))
                                          (currentStepIndex (committed rt)) step))]\<rparr>)
   \<and> submitted (committed (runCallback E form SubmitDoneCb rt))
   \<and> currentStepIndex (committed (runCallback E form (FadeOutCb n) rt)) = n"
  using getNextStepIndex_no_match [of step E fd form i]
    navigateNext_submit [of form E rt step] navigateNext_step [of form E rt step]
  by (simp add: isSubmitIndex_def runCallback_def setTimeout_def)

lemma formABC_steps:
  "steps formABC = [plainStep ''A'', plainStep ''B'', plainStep ''C'']"
  by (simp add: formABC_def linearForm_def)

lemma plainStep_fields:
  "conditionalNavigation (plainStep s) = []" "defaultNextStep (plainStep s) = None"
  "questions (plainStep s) = []" "validateOnContinue (plainStep s)"
  by (simp_all add: plainStep_def)

text \<open>
  The example of claim C2: with steps A, B and C, from A the resolver gives B, from B it
  gives C, and from C it gives index 3, which submits the form.
\<close>

theorem getNextStepIndex_default_witness:
  "conditionalNavigation (plainStep ''A'') = []
   \<and> defaultNextStep (plainStep ''A'') = None
   \<and> getNextStepIndex example_env formABC [] 0 (plainStep ''A'') = 1
   \<and> getNextStepIndex example_env formABC [] 1 (plainStep ''B'') = 2
   \<and> getNextStepIndex example_env formABC [] 2 (plainStep ''C'') = 3
   \<and> \<not> isSubmitIndex formABC 1 \<and> \<not> isSubmitIndex formABC 2 \<and> isSubmitIndex formABC 3
   \<and> currentStep formABC 2 = Some (plainStep ''C'')
   \<and> navigateNext example_env formABC (plainStep ''C'') (viewing 2) =
        (viewing 2)\<lparr>committed := (committed (viewing 2))\<lparr>isSubmitting := True\<rparr>,
                    timers := timers (viewing 2) @ [(now (viewing 2) + 1500, SubmitDoneCb)]\<rparr>
   \<and> pendingStepIndex (navigateNext example_env formABC (plainStep ''A'') (viewing 0)) = Some 1"
proof -
  have v: "formData (committed (viewing i)) = []" "currentStepIndex (committed (viewing i)) = i"
    "\<not> isTransitioning (committed (viewing i))" for i
    by (simp_all add: viewing_def initialState_def)
  have c: "currentStep formABC 2 = Some (plainStep ''C'')"
    by (simp add: currentStep_def js_index_def formABC_steps)
  show ?thesis
    using getNextStepIndex_default [of "plainStep ''A''" example_env "[]" formABC 0 1 "viewing 0"]
      getNextStepIndex_default [of "plainStep ''B''" example_env "[]" formABC 1 2 "viewing 2"]
      getNextStepIndex_default [of "plainStep ''C''" example_env "[]" formABC 2 3 "viewing 2"]
      v c
    by (simp add: plainStep_fields formABC_steps)
qed

section \<open>The continue handler\<close>


lemma navigateNext_errors:
  "errors (committed (navigateNext E form step rt)) = errors (committed rt)"
  by (simp add: navigateNext_def handleSubmit_def transitionToStep_def setTimeout_def Let_def)

text \<open>
  Claim C3, as the code has it. When no transition is in flight, the continue handler
  runs the validator exactly when no rule's condition is true and
  \<^verbatim>\<open>validateOnContinue\<close> is set. Otherwise it resolves the next step at once and leaves the
  error map as it was. When the validator runs and returns a non-empty error map, the
  event stores that map and changes nothing else: the step index stays, nothing is
  submitted and no timer is scheduled.
\<close>

theorem handleContinue_validation:
  "currentStep form (currentStepIndex (committed rt)) = Some step \<Longrightarrow>
   \<not> isTransitioning (committed rt) \<Longrightarrow>
     (conditionalNavMatched E (formData (committed rt)) step \<longleftrightarrow>
        (\<exists>nav \<in> set (conditionalNavigation step).
            evaluateCondition E (formData (committed rt)) (condition nav)))
   \<and> (conditionalNavMatched E (formData (committed rt)) step \<or> \<not> validateOnContinue step \<longrightarrow>
        handleContinue E form rt = Inr (navigateNext E form step rt)
        \<and> errors (committed (navigateNext E form step rt)) = errors (committed rt))
   \<and> (\<not> conditionalNavMatched E (formData (committed rt)) step \<and> validateOnContinue step \<longrightarrow>
        handleContinue E form rt =
          (case validateStep E (formData (committed rt)) step of
             Inl e \<Rightarrow> Inl e
           | Inr errs \<Rightarrow>
               Inr (if errs \<noteq> [] then rt\<lparr>committed := (committed rt)\<lparr>errors := errs\<rparr>\<rparr>
                    else navigateNext E form step
                           (rt\<lparr>committed := (committed rt)\<lparr>errors := errs\<rparr>\<rparr>))))
   \<and> (\<not> conditionalNavMatched E (formData (committed rt)) step \<and> validateOnContinue step
        \<and> validateStep E (formData (committed rt)) step = Inr errs \<and> errs \<noteq> [] \<longrightarrow>
        dispatch E form Continue rt = Inr (rt\<lparr>committed := (committed rt)\<lparr>errors := errs\<rparr>\<rparr>))"
  by (auto simp: handleContinue_def conditionalNavMatched_def list_ex_iff navigateNext_errors
      dispatch_def afterRender_def effectDeps_def Let_def split: sum.splits)

lemma formValidate_current: "currentStep formValidate 0 = Some stepValidate"
  by (simp add: currentStep_def js_index_def formValidate_def linearForm_def)

lemma formNoValidate_current: "currentStep formNoValidate 0 = Some stepNoValidate"
  by (simp add: currentStep_def js_index_def formNoValidate_def linearForm_def)

lemma viewing_fields:
  "formData (committed (viewing i)) = []" "currentStepIndex (committed (viewing i)) = i"
  "\<not> isTransitioning (committed (viewing i))" "errors (committed (viewing i)) = []"
  "\<not> isSubmitting (committed (viewing i))" "\<not> submitted (committed (viewing i))"
  "timers (viewing i) = []" "pendingStepIndex (viewing i) = None" "now (viewing i) = 0"
  "\<not> isNavigating (viewing i)"
  by (simp_all add: viewing_def initialState_def)

lemma validate_requiredName:
  "validateQuestion E [] [] requiredName = Inr [(''name'', ''This field is required'')]"
  by (simp add: validateQuestion_def shouldShowQuestion_def requiredName_def plainQuestion_def
      noValidation_def fieldKey_def js_get_def objectPrototypeKeys_def isArray_def js_assign_def
      Let_def)

theorem handleContinue_validation_witness:
  "currentStep formValidate (currentStepIndex (committed (viewing 0))) = Some stepValidate
   \<and> \<not> isTransitioning (committed (viewing 0))
   \<and> \<not> conditionalNavMatched example_env (formData (committed (viewing 0))) stepValidate
   \<and> validateOnContinue stepValidate
   \<and> validateStep example_env (formData (committed (viewing 0))) stepValidate
        = Inr [(''name'', ''This field is required'')]
   \<and> dispatch example_env formValidate Continue (viewing 0)
        = Inr ((viewing 0)\<lparr>committed :=
                 (committed (viewing 0))\<lparr>errors := [(''name'', ''This field is required'')]\<rparr>\<rparr>)"
proof -
  have s: "conditionalNavigation stepValidate = []" "validateOnContinue stepValidate"
    "questions stepValidate = [requiredName]"
    by (simp_all add: stepValidate_def plainStep_def)
  have v: "validateStep example_env [] stepValidate = Inr [(''name'', ''This field is required'')]"
    by (simp add: validateStep_def s validate_requiredName)
  show ?thesis
    using handleContinue_validation [of formValidate "viewing 0" stepValidate example_env
        "[(''name'', ''This field is required'')]"]
      formValidate_current v s
    by (simp add: viewing_fields)
qed

text \<open>
  Claim C3 as it is stated fails in the direction "only if": on a step whose
  \<^verbatim>\<open>validateOnContinue\<close> is not set, no rule matches, the validator would report the
  empty required field, and yet the handler goes on to step B and leaves the error map
  empty.
\<close>

theorem handleContinue_skip_counterexample:
  "\<not> conditionalNavMatched example_env (formData (committed (viewing 0))) stepNoValidate
   \<and> currentStep formNoValidate (currentStepIndex (committed (viewing 0))) = Some stepNoValidate
   \<and> validateStep example_env (formData (committed (viewing 0))) stepNoValidate
        = Inr [(''name'', ''This field is required'')]
   \<and> handleContinue example_env formNoValidate (viewing 0)
        = Inr ((viewing 0)\<lparr>committed := (committed (viewing 0))\<lparr>isTransitioning := True\<rparr>,
                 isNavigating := True, pendingStepIndex := Some 1,
                 timers := [(150, FadeOutCb 1)]\<rparr>)"
proof -
  have s: "conditionalNavigation stepNoValidate = []" "\<not> validateOnContinue stepNoValidate"
    "questions stepNoValidate = [requiredName]" "defaultNextStep stepNoValidate = None"
    by (simp_all add: stepNoValidate_def plainStep_def)
  have v: "validateStep example_env [] stepNoValidate
      = Inr [(''name'', ''This field is required'')]"
    by (simp add: validateStep_def s validate_requiredName)
  have n: "getNextStepIndex example_env formNoValidate [] 0 stepNoValidate = 1"
    by (simp add: getNextStepIndex_def sortedNavigation_def s)
  have l: "length (steps formNoValidate) = 2"
    by (simp add: formNoValidate_def linearForm_def)
  show ?thesis
    using formNoValidate_current v
    by (simp add: viewing_fields handleContinue_def conditionalNavMatched_def s n l
        navigateNext_def isSubmitIndex_def transitionToStep_def setTimeout_def)
qed

section \<open>The validator\<close>

lemma js_assign_update: "key \<noteq> ''__proto__'' \<Longrightarrow> js_assign key msg errs = AList.update key msg errs"
  by (simp add: js_assign_def)






lemma mask_as_assignIf:
  "(if b then (case d of None \<Rightarrow> e | Some msg \<Rightarrow> js_assign key msg e) else e)
     = assignIf (b \<and> d \<noteq> None) key (case d of None \<Rightarrow> [] | Some m \<Rightarrow> m) e"
  by (cases d) (simp_all add: assignIf_def)

lemma patternCheck_compiles:
  "patternCompiles E v \<Longrightarrow>
     patternCheck E v key s errs =
       Inr (assignIf (case compiledPattern E v of None \<Rightarrow> False | Some t \<Rightarrow> \<not> t s) key
              (case patternMessage v of
                 None \<Rightarrow> ''Invalid format''
               | Some m \<Rightarrow> (if m \<noteq> [] then m else ''Invalid format'')) errs)"
  by (auto simp: patternCompiles_def patternCheck_def compiledPattern_def assignIf_def
      split: option.splits)

lemma patternCheck_throws:
  "\<not> patternCompiles E v \<Longrightarrow> \<exists>p. patternCheck E v key s errs = Inl (SyntaxError p)"
  by (auto simp: patternCompiles_def patternCheck_def split: option.splits)

lemma present_checks:
  assumes "patternCompiles E (validation q)"
  shows "patternCheck E (validation q) key (js_String E val)
           (rangeChecks E (validation q) key val (typeChecks q key (js_String E val) errs))
         = Inr (applyChecks key (orderedChecks E q val (compiledPattern E (validation q))) errs)"
  by (simp add: patternCheck_compiles [OF assms] rangeChecks_def typeChecks_def
      orderedChecks_def applyChecks_def mask_as_assignIf Let_def)

lemma validateQuestion_present:
  assumes "checksPresentValue E fd q"
  shows "validateQuestion E fd errs q =
           patternCheck E (validation q) (fieldKey q) (js_String E (js_get fd (fieldKey q)))
             (rangeChecks E (validation q) (fieldKey q) (js_get fd (fieldKey q))
                (typeChecks q (fieldKey q) (js_String E (js_get fd (fieldKey q))) errs))"
  using assms
  by (auto simp: checksPresentValue_def validateQuestion_def Let_def isArray_def
      split: jsval.splits)


lemma validateQuestion_untouched:
  assumes "\<not> checksPresentValue E fd q"
  shows "validateQuestion E fd errs q = Inr errs
         \<or> validateQuestion E fd errs q
             = Inr (js_assign (fieldKey q) ''This field is required'' errs)"
  using assms by (auto simp: checksPresentValue_def validateQuestion_def Let_def)


lemma validateQuestion_applied:
  assumes "checksPresentValue E fd q" "patternCompiles E (validation q)"
  shows "validateQuestion E fd errs q
     = Inr (applyChecks (fieldKey q)
              (orderedChecks E q (js_get fd (fieldKey q)) (compiledPattern E (validation q)))
              errs)"
  by (simp add: validateQuestion_present [OF assms(1)] present_checks [OF assms(2)])


lemma validateQuestion_ok_iff:
  "(\<exists>errs'. validateQuestion E fd errs q = Inr errs')
     \<longleftrightarrow> (checksPresentValue E fd q \<longrightarrow> patternCompiles E (validation q))"
proof (cases "checksPresentValue E fd q")
  case True
  show ?thesis
  proof (cases "patternCompiles E (validation q)")
    case c: True
    then show ?thesis using validateQuestion_applied [OF True c] by simp
  next
    case c: False
    obtain p where "validateQuestion E fd errs q = Inl (SyntaxError p)"
      using patternCheck_throws [OF c] validateQuestion_present [OF True, of errs]
      by metis
    then show ?thesis using True c by simp
  qed
next
  case False
  then show ?thesis using validateQuestion_untouched [OF False, of errs] by auto
qed




lemma validateLoop_ok_iff:
  "(\<exists>errs'. validateLoop E fd errs qs = Inr errs')
     \<longleftrightarrow> (\<forall>q \<in> set qs. checksPresentValue E fd q \<longrightarrow> patternCompiles E (validation q))"
proof (induction qs arbitrary: errs)
  case Nil
  then show ?case by simp
next
  case (Cons q qs)
  show ?case
  proof (cases "validateQuestion E fd errs q")
    case (Inl e)
    then have "\<not> (checksPresentValue E fd q \<longrightarrow> patternCompiles E (validation q))"
      using validateQuestion_ok_iff [of E fd errs q] by simp
    with Inl show ?thesis by simp
  next
    case (Inr errs1)
    then have "checksPresentValue E fd q \<longrightarrow> patternCompiles E (validation q)"
      using validateQuestion_ok_iff [of E fd errs q] by simp
    with Inr Cons.IH [of errs1] show ?thesis by simp
  qed
qed




text \<open>
  Claim C7, as the code has it. The validator returns an error map exactly when every
  question whose present value it checks has no pattern, an empty pattern or a pattern
  that compiles.
\<close>

theorem validateStep_returns:
  "(\<exists>errs. validateStep E fd step = Inr errs)
     \<longleftrightarrow> (\<forall>q \<in> set (questions step).
            checksPresentValue E fd q \<longrightarrow> patternCompiles E (validation q))"
  unfolding validateStep_def by (rule validateLoop_ok_iff)

theorem validateStep_returns_witness:
  "questions stepEmail = [emailWithPattern]
   \<and> checksPresentValue example_env [(''mail'', JStr ''bad'')] emailWithPattern
   \<and> patternCompiles example_env (validation emailWithPattern)
   \<and> (\<exists>errs. validateStep example_env [(''mail'', JStr ''bad'')] stepEmail = Inr errs)
   \<and> validateStep example_env [(''mail'', JStr ''bad'')] stepEmail
        = Inr [(''mail'', ''Use the example domain'')]"
proof -
  have v: "validateStep example_env [(''mail'', JStr ''bad'')] stepEmail
        = Inr [(''mail'', ''Use the example domain'')]"
    by code_simp
  have q: "questions stepEmail = [emailWithPattern]"
    by (simp add: stepEmail_def plainStep_def)
  have p: "checksPresentValue example_env [(''mail'', JStr ''bad'')] emailWithPattern"
    "patternCompiles example_env (validation emailWithPattern)"
    by code_simp+
  show ?thesis
    using validateStep_returns [of example_env "[(''mail'', JStr ''bad'')]" stepEmail] q p v
    by simp
qed

text \<open>
  Claim C7 as it is stated fails: for a text question with the pattern \<^verbatim>\<open>(\<close> and the
  answer "a", \<^verbatim>\<open>new RegExp\<close> throws and the validator ends with that exception instead
  of an error map.
\<close>

theorem validateStep_throws_counterexample:
  "checksPresentValue example_env [(''code'', JStr ''a'')] badPattern
   \<and> pattern (validation badPattern) = Some ''(''
   \<and> newRegExp example_env ''('' = None
   \<and> validateStep example_env [(''code'', JStr ''a'')] stepBadPattern = Inl (SyntaxError ''('')"
proof -
  have "validateStep example_env [(''code'', JStr ''a'')] stepBadPattern = Inl (SyntaxError ''('')"
    by code_simp
  moreover have "checksPresentValue example_env [(''code'', JStr ''a'')] badPattern"
    "pattern (validation badPattern) = Some ''(''" "newRegExp example_env ''('' = None"
    by code_simp+
  ultimately show ?thesis by simp
qed

lemma is_space_code: "\<forall>c. is_space c \<longleftrightarrow> of_char c \<in> {9, 10, 11, 12, 13, 32 :: nat}"
  by code_simp

lemma upper_char_code:
  "\<forall>c. upper_char c =
     (if 97 \<le> (of_char c :: nat) \<and> (of_char c :: nat) \<le> 122
      then char_of (of_char c - 32 :: nat) else c)"
  by code_simp

lemma stripWhitespace_code:
  "stripWhitespace s = filter (\<lambda>c. (of_char c :: nat) \<notin> {9, 10, 11, 12, 13, 32}) s"
  using is_space_code by (simp add: stripWhitespace_def)

lemma toUpperCase_code:
  "toUpperCase s =
     map (\<lambda>c. if 97 \<le> (of_char c :: nat) \<and> (of_char c :: nat) \<le> 122
               then char_of (of_char c - 32 :: nat) else c) s"
  using upper_char_code by (simp add: toUpperCase_def)

lemma typeChecks_eircode:
  "question_type q = Q_eircode \<Longrightarrow>
     typeChecks q key s errs
       = assignIf (eircodeInvalid s) key ''Please enter a valid Eircode (e.g. D02 X285)'' errs"
  by (simp add: typeChecks_def assignIf_def)

lemma rangeChecks_none:
  "minLength v = None \<Longrightarrow> maxLength v = None \<Longrightarrow> v_min v = None \<Longrightarrow> v_max v = None
     \<Longrightarrow> rangeChecks E v key val errs = errs"
  by (simp add: rangeChecks_def assignIf_def belowLimit_def aboveLimit_def)

lemma patternCheck_none: "pattern v = None \<Longrightarrow> patternCheck E v key s errs = Inr errs"
  by (simp add: patternCheck_def)

text \<open>
  Claim C8. Take a shown eircode question with a present answer whose string form \<open>s\<close>
  is ASCII, and let \<open>u\<close> be \<open>s\<close> without its white space (tab, line feed, vertical tab,
  form feed, carriage return, space) and with the letters a to z replaced by A to Z. The
  eircode message is assigned exactly when \<open>u\<close> is shorter than 7 characters or its first
  three characters are not among the 139 routing keys; the generic checks run after it.
  When the question has no generic check and its field key is not \<^verbatim>\<open>__proto__\<close>, the
  question gets no error exactly when \<open>u\<close> has at least 7 characters and a listed prefix,
  and so does the step with this one question.
\<close>

theorem eircode_validation:
  "question_type q = Q_eircode \<Longrightarrow> checksPresentValue E fd q \<Longrightarrow>
   js_String E (js_get fd (fieldKey q)) = s \<Longrightarrow> \<forall>c \<in> set s. of_char c < (128 :: nat) \<Longrightarrow>
   u = map (\<lambda>c. if 97 \<le> (of_char c :: nat) \<and> (of_char c :: nat) \<le> 122
                 then char_of (of_char c - 32 :: nat) else c)
         (filter (\<lambda>c. (of_char c :: nat) \<notin> {9, 10, 11, 12, 13, 32}) s) \<Longrightarrow>
   valid = (7 \<le> length u \<and> take 3 u \<in> set validEircodePrefixes) \<Longrightarrow>
     length validEircodePrefixes = 139 \<and> distinct validEircodePrefixes
   \<and> validateQuestion E fd errs q =
        patternCheck E (validation q) (fieldKey q) s
          (rangeChecks E (validation q) (fieldKey q) (js_get fd (fieldKey q))
             (assignIf (\<not> valid) (fieldKey q)
                ''Please enter a valid Eircode (e.g. D02 X285)'' errs))
   \<and> (minLength (validation q) = None \<and> maxLength (validation q) = None
        \<and> v_min (validation q) = None \<and> v_max (validation q) = None
        \<and> pattern (validation q) = None \<and> fieldKey q \<noteq> ''__proto__'' \<longrightarrow>
          validateQuestion E fd errs q =
            Inr (if valid then errs
                 else AList.update (fieldKey q)
                        ''Please enter a valid Eircode (e.g. D02 X285)'' errs)
        \<and> (questions step = [q] \<longrightarrow>
              (validateStep E fd step = Inr [] \<longleftrightarrow> valid)
            \<and> (\<not> valid \<longrightarrow>
                 validateStep E fd step
                   = Inr [(fieldKey q, ''Please enter a valid Eircode (e.g. D02 X285)'')])))"
proof -
  assume a: "question_type q = Q_eircode" "checksPresentValue E fd q"
    "js_String E (js_get fd (fieldKey q)) = s"
    and u: "u = map (\<lambda>c. if 97 \<le> (of_char c :: nat) \<and> (of_char c :: nat) \<le> 122
                 then char_of (of_char c - 32 :: nat) else c)
         (filter (\<lambda>c. (of_char c :: nat) \<notin> {9, 10, 11, 12, 13, 32}) s)"
    and valid: "valid = (7 \<le> length u \<and> take 3 u \<in> set validEircodePrefixes)"
  have list: "length validEircodePrefixes = 139 \<and> distinct validEircodePrefixes"
    by code_simp
  have u': "u = toUpperCase (stripWhitespace s)"
    by (simp only: u toUpperCase_code stripWhitespace_code)
  have d: "eircodeInvalid s \<longleftrightarrow> \<not> valid"
    by (auto simp: eircodeInvalid_def substring_def Let_def valid u')
  have q: "validateQuestion E fd errs q =
        patternCheck E (validation q) (fieldKey q) s
          (rangeChecks E (validation q) (fieldKey q) (js_get fd (fieldKey q))
             (assignIf (\<not> valid) (fieldKey q)
                ''Please enter a valid Eircode (e.g. D02 X285)'' errs))" for errs
    using validateQuestion_present [OF a(2), of errs] a(1,3)
    by (simp add: typeChecks_eircode d)
  have plain: "validateQuestion E fd errs q =
            Inr (if valid then errs
                 else AList.update (fieldKey q)
                        ''Please enter a valid Eircode (e.g. D02 X285)'' errs)"
    if "minLength (validation q) = None \<and> maxLength (validation q) = None
        \<and> v_min (validation q) = None \<and> v_max (validation q) = None
        \<and> pattern (validation q) = None \<and> fieldKey q \<noteq> ''__proto__''" for errs
    using that
    by (simp add: q rangeChecks_none patternCheck_none assignIf_def js_assign_update)
  show ?thesis
    using list q [of errs] plain
    by (auto simp: validateStep_def)
qed

text \<open>
  The examples of claim C8: "D02X285" passes and "Z99X285" does not; "d02 x285", in
  lower case and with a space, passes as well.
\<close>

theorem eircode_validation_witness:
  "question_type eircodeQuestion = Q_eircode
   \<and> checksPresentValue example_env [(''eircode'', JStr ''D02X285'')] eircodeQuestion
   \<and> validateStep example_env [(''eircode'', JStr ''D02X285'')] stepEircode = Inr []
   \<and> validateStep example_env [(''eircode'', JStr ''Z99X285'')] stepEircode
        = Inr [(''eircode'', ''Please enter a valid Eircode (e.g. D02 X285)'')]
   \<and> validateStep example_env [(''eircode'', JStr ''d02 x285'')] stepEircode = Inr []"
proof -
  have t: "question_type eircodeQuestion = Q_eircode"
    by code_simp
  have p: "checksPresentValue example_env [(''eircode'', JStr v)] eircodeQuestion"
    if "v \<noteq> []" for v
    using that
    by (simp add: checksPresentValue_def shouldShowQuestion_def eircodeQuestion_def
        plainQuestion_def fieldKey_def js_get_def isArray_def)
  have s: "js_String example_env (js_get [(''eircode'', JStr v)] (fieldKey eircodeQuestion)) = v"
    for v
    by (simp add: eircodeQuestion_def plainQuestion_def fieldKey_def js_get_def)
  have v: "minLength (validation eircodeQuestion) = None"
    "maxLength (validation eircodeQuestion) = None" "v_min (validation eircodeQuestion) = None"
    "v_max (validation eircodeQuestion) = None" "pattern (validation eircodeQuestion) = None"
    "questions stepEircode = [eircodeQuestion]" "fieldKey eircodeQuestion = ''eircode''"
    "fieldKey eircodeQuestion \<noteq> ''__proto__''"
    by code_simp+
  have a1: "\<forall>c \<in> set ''D02X285''. of_char c < (128 :: nat)"
    and a2: "\<forall>c \<in> set ''Z99X285''. of_char c < (128 :: nat)"
    and a3: "\<forall>c \<in> set ''d02 x285''. of_char c < (128 :: nat)"
    by code_simp+
  have u1: "''D02X285'' = map (\<lambda>c. if 97 \<le> (of_char c :: nat) \<and> (of_char c :: nat) \<le> 122
                 then char_of (of_char c - 32 :: nat) else c)
         (filter (\<lambda>c. (of_char c :: nat) \<notin> {9, 10, 11, 12, 13, 32}) ''D02X285'')"
    and u2: "''Z99X285'' = map (\<lambda>c. if 97 \<le> (of_char c :: nat) \<and> (of_char c :: nat) \<le> 122
                 then char_of (of_char c - 32 :: nat) else c)
         (filter (\<lambda>c. (of_char c :: nat) \<notin> {9, 10, 11, 12, 13, 32}) ''Z99X285'')"
    and u3: "''D02X285'' = map (\<lambda>c. if 97 \<le> (of_char c :: nat) \<and> (of_char c :: nat) \<le> 122
                 then char_of (of_char c - 32 :: nat) else c)
         (filter (\<lambda>c. (of_char c :: nat) \<notin> {9, 10, 11, 12, 13, 32}) ''d02 x285'')"
    by code_simp+
  have m1: "True = (7 \<le> length ''D02X285'' \<and> take 3 ''D02X285'' \<in> set validEircodePrefixes)"
    and m2: "False = (7 \<le> length ''Z99X285'' \<and> take 3 ''Z99X285'' \<in> set validEircodePrefixes)"
    by code_simp+
  show ?thesis
    using eircode_validation [OF t p s a1 u1 m1, of "[]" stepEircode]
      eircode_validation [OF t p s a2 u2 m2, of "[]" stepEircode]
      eircode_validation [OF t p s a3 u3 m1, of "[]" stepEircode]
      t p [of "''D02X285''"] v
    by simp
qed

section \<open>Reset and pending timers\<close>




end
